theory Spec2Isabelle
  imports Complex_Main "HOL-Library.Multiset" "HOL-Library.Log_Nat"
begin

section \<open>Values shared by the notebooks\<close>

text \<open>
  The repository is a set of notebooks. The cells that carry logic of their own are in the
  NLP monitoring notebook (baseline packaging, the feature list, the guarded onboarding
  cells) and in the image monitoring notebook (\<open>load_model\<close>, \<open>generate_embeddings\<close>, the
  event publishing loop). Exceptions are values: a computation that can raise returns
  \<open>py_exn + 'a\<close>, with \<open>Inl\<close> the exception.
\<close>

datatype py_exn =
  ValueError | KeyError | IndexError | NameError | UnboundLocalError | RuntimeError | ClientError
| TypeError

text \<open>
  A cell of a dataframe. The floating-point numbers held in cells are read as the real
  numbers they denote; the arithmetic on floats that the notebooks do themselves (the
  batch timestamp) is rounded explicitly, see \<open>round64\<close>.
\<close>

datatype cell = Num real | Str string | IntV int | NaN

text \<open>
  A pandas dataframe: the column labels and the rows, each row holding one cell per
  column. The row labels (the index) are left out: \<open>pd.concat\<close> is the only operation
  of the notebooks that reads them, and every frame it is given carries the default
  \<open>RangeIndex\<close>, on which alignment by label is alignment by position.
\<close>

record dataframe =
  columns :: "string list"
  rows :: "cell list list"

text \<open>A two-dimensional numpy array or torch tensor of shape \<open>(length (data a), ncols a)\<close>.\<close>

record ndarray =
  ncols :: nat
  data :: "real list list"

subsection \<open>Python built-ins\<close>

text \<open>\<open>str(i)\<close> for a non-negative integer: its decimal digits.\<close>

definition digit :: "nat \<Rightarrow> char" where
  "digit d = char_of (48 + d)"

fun str_nat :: "nat \<Rightarrow> string" where
  "str_nat n = (if n < 10 then [digit n] else str_nat (n div 10) @ [digit (n mod 10)])"

declare str_nat.simps [simp del]

text \<open>\<open>int(x)\<close> for a float: truncation towards zero.\<close>

definition py_int :: "real \<Rightarrow> int" where
  "py_int x = (if 0 \<le> x then \<lfloor>x\<rfloor> else \<lceil>x\<rceil>)"

subsection \<open>Arithmetic on floats\<close>

text \<open>
  A Python float is a binary64 number: a real of the form \<open>k \<cdot> 2\<^sup>q\<close> with \<open>\<bar>k\<bar> < 2\<^sup>5\<^sup>3\<close>.
  Every operation returns the exact result rounded to the nearest such number, ties going
  to the even one. \<open>bexp x\<close> is the binary exponent of a positive \<open>x\<close>
  (\<open>2\<^sup>e \<le> x < 2\<^sup>e\<^sup>+\<^sup>1\<close>), \<open>round_even\<close> rounds to the nearest integer with ties to even, and
  \<open>round64\<close> rounds to 53 significant bits. Overflow to infinity and the shorter
  significand of subnormal numbers are left out: the operations modelled below subtract
  and multiply numbers of moderate size, and a difference that falls into the subnormal
  range is exact.
\<close>

definition bexp :: "real \<Rightarrow> int" where
  "bexp x = (if 1 \<le> x then bitlen \<lfloor>x\<rfloor> - 1 else - bitlen (\<lceil>1 / x\<rceil> - 1))"

definition round_even :: "real \<Rightarrow> int" where
  "round_even y =
     (if y - of_int \<lfloor>y\<rfloor> < 1 / 2 then \<lfloor>y\<rfloor>
      else if 1 / 2 < y - of_int \<lfloor>y\<rfloor> then \<lfloor>y\<rfloor> + 1
      else if even \<lfloor>y\<rfloor> then \<lfloor>y\<rfloor> else \<lfloor>y\<rfloor> + 1)"

definition round64 :: "real \<Rightarrow> real" where
  "round64 x =
     (if x = 0 then 0
      else of_int (round_even (x / 2 powi (bexp \<bar>x\<bar> - 52))) * 2 powi (bexp \<bar>x\<bar> - 52))"

text \<open>The slice \<open>xs[:n]\<close>: a negative \<open>n\<close> counts from the end.\<close>

definition py_slice_to :: "int \<Rightarrow> 'a list \<Rightarrow> 'a list" where
  "py_slice_to n xs = (if 0 \<le> n then take (nat n) xs else take (length xs - nat (- n)) xs)"

text \<open>Indexing a tuple: a negative index counts from the end, out of range raises.\<close>

definition tuple_get :: "'a list \<Rightarrow> int \<Rightarrow> py_exn + 'a" where
  "tuple_get xs i =
     (let len = int (length xs); j = (if i < 0 then len + i else i)
      in if 0 \<le> j \<and> j < len then Inr (xs ! nat j) else Inl IndexError)"

section \<open>Image notebook: the batch timestamp\<close>

text \<open>
  \<^verbatim>\<open>week_offset = (2-i)*7*24*60*60*1e3\<close>, \<^verbatim>\<open>day_offset = 24*60*60*1e3\<close>,
  \<^verbatim>\<open>now = time.time() * 1000\<close> and
  \<^verbatim>\<open>timestamp = int(now - week_offset - day*day_offset)\<close>.
  The product \<open>now\<close> (a float: milliseconds with a fractional part) is an input. The
  integer products are exact; an integer is converted to a float where it meets one, and
  each float operation is rounded: \<open>(now - week_offset) - (day * day_offset)\<close>.
\<close>

definition week_offset :: "nat \<Rightarrow> real" where
  "week_offset i = round64 (round64 (real_of_int ((2 - int i) * 7 * 24 * 60 * 60)) * 1000)"

definition day_offset :: real where
  "day_offset = round64 (round64 (real_of_int (24 * 60 * 60)) * 1000)"

definition timestamp :: "real \<Rightarrow> nat \<Rightarrow> nat \<Rightarrow> int" where
  "timestamp now i day =
     py_int (round64 (round64 (now - week_offset i) - round64 (round64 (real day) * day_offset)))"

section \<open>Image notebook: the embedding extractor\<close>

subsection \<open>pandas and numpy operations used by the extractor\<close>

text \<open>
  Modelled from the spec: pandas and numpy are libraries outside the repository. The
  definitions of this subsection follow their documented behaviour on the arguments the
  notebooks pass.

  \<open>np.concatenate((a, b))\<close> on two-dimensional arrays stacks the rows and raises
  \<open>ValueError\<close> when the widths differ.
\<close>

definition np_concatenate :: "ndarray \<Rightarrow> ndarray \<Rightarrow> py_exn + ndarray" where
  "np_concatenate a b =
     (if ncols a \<noteq> ncols b then Inl ValueError
      else Inr \<lparr>ncols = ncols a, data = data a @ data b\<rparr>)"

text \<open>
  Modelled from the spec: \<open>pd.DataFrame(arr, columns=cols)\<close> on a two-dimensional array
  raises \<open>ValueError\<close> when the array's width is not the number of labels.
\<close>

definition DataFrame_ndarray :: "ndarray \<Rightarrow> string list \<Rightarrow> py_exn + dataframe" where
  "DataFrame_ndarray a cols =
     (if ncols a \<noteq> length cols then Inl ValueError
      else Inr \<lparr>columns = cols, rows = map (map Num) (data a)\<rparr>)"

text \<open>Modelled from the spec: \<open>pd.DataFrame(xs, columns=[c])\<close> on a list of strings.\<close>

definition DataFrame_list :: "string list \<Rightarrow> string \<Rightarrow> dataframe" where
  "DataFrame_list xs c = \<lparr>columns = [c], rows = map (\<lambda>x. [Str x]) xs\<rparr>"

text \<open>
  Modelled from the spec: \<open>pd.concat(frames, axis='columns')\<close> on frames with the default
  index. The labels are concatenated as they are (equal labels are kept, not renamed); the
  result has as many rows as the longest frame, a shorter frame being filled with
  \<open>NaN\<close>.
\<close>

definition frame_row :: "dataframe \<Rightarrow> nat \<Rightarrow> cell list" where
  "frame_row f i =
     (if i < length (rows f) then rows f ! i else replicate (length (columns f)) NaN)"

definition concat_columns :: "dataframe list \<Rightarrow> dataframe" where
  "concat_columns fs =
     \<lparr>columns = concat (map columns fs),
      rows = map (\<lambda>i. concat (map (\<lambda>f. frame_row f i) fs))
               [0..<fold max (map (\<lambda>f. length (rows f)) fs) 0]\<rparr>"

subsection \<open>The network\<close>

text \<open>
  Modelled from the spec: torch is a library outside the repository; the layers and
  \<open>torch.max\<close> follow its documented behaviour on shapes.

  \<open>nn.Linear(in_features, out_features)\<close>: the weight has shape
  \<open>(out_features, in_features)\<close> and the bias \<open>out_features\<close> entries by construction, so
  they are functions of the indices. Applied to a batch whose width is not \<open>in_features\<close>
  the layer raises.
\<close>

record linear =
  in_features :: nat
  out_features :: nat
  weight :: "nat \<Rightarrow> nat \<Rightarrow> real"
  bias :: "nat \<Rightarrow> real"

definition linear_forward :: "linear \<Rightarrow> ndarray \<Rightarrow> py_exn + ndarray" where
  "linear_forward L x =
     (if ncols x \<noteq> in_features L then Inl RuntimeError
      else Inr \<lparr>ncols = out_features L,
                data = map (\<lambda>r. map (\<lambda>j. sum_list (map (\<lambda>k. weight L j k * r ! k)
                                                   [0..<in_features L]) + bias L j)
                                    [0..<out_features L])
                           (data x)\<rparr>)"

definition relu :: "ndarray \<Rightarrow> ndarray" where
  "relu a = a\<lparr>data := map (map (max 0)) (data a)\<rparr>"

definition softmax :: "ndarray \<Rightarrow> ndarray" where
  "softmax a = a\<lparr>data := map (\<lambda>r. map (\<lambda>x. exp x / sum_list (map exp r)) r) (data a)\<rparr>"

text \<open>
  The model: the convolutional part of \<open>resnet18()\<close> up to the flattened pooling output
  (\<open>feature_width\<close> numbers per image, given by \<open>features\<close>), followed by
  \<open>model.fc = Sequential(fc_0, ReLU, fc_2)\<close>.
\<close>

record 'img resnet =
  feature_width :: nat
  features :: "'img \<Rightarrow> nat \<Rightarrow> real"
  fc_0 :: linear
  fc_2 :: linear

text \<open>
  \<open>load_model\<close>: \<open>resnet18()\<close> (whose pooled output has 512 features) with
  \<open>fc = Sequential(Linear(512, 128), ReLU(), Linear(128, 10))\<close>; the downloaded state dict
  supplies the convolutional part and the weights.
\<close>

definition load_model ::
  "('img \<Rightarrow> nat \<Rightarrow> real) \<Rightarrow> (nat \<Rightarrow> nat \<Rightarrow> real) \<Rightarrow> (nat \<Rightarrow> real) \<Rightarrow>
   (nat \<Rightarrow> nat \<Rightarrow> real) \<Rightarrow> (nat \<Rightarrow> real) \<Rightarrow> 'img resnet" where
  "load_model conv w1 b1 w2 b2 =
     \<lparr>feature_width = 512, features = conv,
      fc_0 = \<lparr>in_features = 512, out_features = 128, weight = w1, bias = b1\<rparr>,
      fc_2 = \<lparr>in_features = 128, out_features = 10, weight = w2, bias = b2\<rparr>\<rparr>"

subsection \<open>Interpreter state: the global and the hooks of \<open>model.fc[0]\<close>\<close>

record interp =
  view_fc1_output_embeds :: "ndarray option"
  fc1_forward_hooks :: "nat list"
  next_handle :: nat

text \<open>\<open>fc1_module.register_forward_hook(fc1_hook_func)\<close> returns a fresh handle.\<close>

definition register_forward_hook :: "interp \<Rightarrow> nat \<times> interp" where
  "register_forward_hook st =
     (next_handle st,
      st\<lparr>fc1_forward_hooks := fc1_forward_hooks st @ [next_handle st],
         next_handle := Suc (next_handle st)\<rparr>)"

definition hook_remove :: "nat \<Rightarrow> interp \<Rightarrow> interp" where
  "hook_remove h st = st\<lparr>fc1_forward_hooks := removeAll h (fc1_forward_hooks st)\<rparr>"

text \<open>
  \<open>model(inputs)\<close>: every hook registered on \<open>fc[0]\<close> is \<open>fc1_hook_func\<close>, which stores the
  layer's output in the global.
\<close>

definition forward ::
  "'img resnet \<Rightarrow> 'img list \<Rightarrow> interp \<Rightarrow> (py_exn + ndarray) \<times> interp" where
  "forward model inputs st =
     (let x = \<lparr>ncols = feature_width model,
               data = map (\<lambda>im. map (features model im) [0..<feature_width model]) inputs\<rparr>
      in case linear_forward (fc_0 model) x of
           Inl e \<Rightarrow> (Inl e, st)
         | Inr h1 \<Rightarrow>
             (linear_forward (fc_2 model) (relu h1),
              if fc1_forward_hooks st = [] then st
              else st\<lparr>view_fc1_output_embeds := Some h1\<rparr>))"

text \<open>
  \<open>torch.max(outputs, 1)\<close>: the position of a largest score in each row; the reduction
  raises when the rows have no entry.
\<close>

definition argmax :: "real list \<Rightarrow> nat" where
  "argmax r = length (takeWhile (\<lambda>x. x < fold max r (hd r)) r)"

definition torch_max :: "ndarray \<Rightarrow> py_exn + nat list" where
  "torch_max a = (if ncols a = 0 then Inl IndexError else Inr (map argmax (data a)))"

subsection \<open>\<open>generate_embeddings\<close>\<close>

definition CIFAR_CLASSES :: "string list" where
  "CIFAR_CLASSES =
     [''plane'', ''car'', ''bird'', ''cat'', ''deer'', ''dog'', ''frog'',
      ''horse'', ''ship'', ''truck'']"

fun idx_to_classes :: "int list \<Rightarrow> py_exn + string list" where
  "idx_to_classes [] = Inr []"
| "idx_to_classes (i # target_arr) =
     (case tuple_get CIFAR_CLASSES i of
        Inl e \<Rightarrow> Inl e
      | Inr c \<Rightarrow> (case idx_to_classes target_arr of Inl e \<Rightarrow> Inl e | Inr cs \<Rightarrow> Inr (c # cs)))"

text \<open>The local variables of the loop; \<open>None\<close> is a variable not yet bound.\<close>

record locals =
  fc1_embeds :: "ndarray option"
  output_scores :: "ndarray option"
  target :: "int list option"
  correct_preds :: nat
  images_processed :: nat

text \<open>The \<open>if i == 0: ... else: ...\<close> of the loop body.\<close>

definition accumulate ::
  "nat \<Rightarrow> interp \<Rightarrow> ndarray \<Rightarrow> int list \<Rightarrow> locals \<Rightarrow> py_exn + locals" where
  "accumulate i st outputs_smax labels loc =
     (if i = 0 then
        (case view_fc1_output_embeds st of
           None \<Rightarrow> Inl NameError
         | Some v \<Rightarrow>
             Inr (loc\<lparr>fc1_embeds := Some v, output_scores := Some outputs_smax,
                      target := Some labels\<rparr>))
      else
        (case fc1_embeds loc of
           None \<Rightarrow> Inl UnboundLocalError
         | Some e \<Rightarrow>
        (case view_fc1_output_embeds st of
           None \<Rightarrow> Inl NameError
         | Some v \<Rightarrow>
        (case np_concatenate e v of
           Inl x \<Rightarrow> Inl x
         | Inr e' \<Rightarrow>
        (case output_scores loc of
           None \<Rightarrow> Inl UnboundLocalError
         | Some s \<Rightarrow>
        (case np_concatenate s outputs_smax of
           Inl x \<Rightarrow> Inl x
         | Inr s' \<Rightarrow>
        (case target loc of
           None \<Rightarrow> Inl UnboundLocalError
         | Some t \<Rightarrow>
             Inr (loc\<lparr>fc1_embeds := Some e', output_scores := Some s',
                      target := Some (t @ labels)\<rparr>))))))))"

text \<open>
  The body of the \<open>try\<close>: \<open>for i, (inputs, labels) in enumerate(dataloader)\<close>. A batch is
  the list of its (image, label) pairs; the loop stops after the batch with which
  \<open>images_processed >= n\<close>.
\<close>

fun batch_loop ::
  "'img resnet \<Rightarrow> int \<Rightarrow> nat \<Rightarrow> ('img \<times> int) list list \<Rightarrow> locals \<Rightarrow> interp \<Rightarrow>
   (py_exn + locals) \<times> interp" where
  "batch_loop model n i [] loc st = (Inr loc, st)"
| "batch_loop model n i (b # bs) loc st =
     (case forward model (map fst b) st of
        (Inl e, st1) \<Rightarrow> (Inl e, st1)
      | (Inr outputs, st1) \<Rightarrow>
     (case torch_max outputs of
        Inl e \<Rightarrow> (Inl e, st1)
      | Inr preds \<Rightarrow>
     (case accumulate i st1 (softmax outputs) (map snd b)
             (loc\<lparr>correct_preds := correct_preds loc
                     + length (filter (\<lambda>(p, l). int p = l) (zip preds (map snd b)))\<rparr>) of
        Inl e \<Rightarrow> (Inl e, st1)
      | Inr loc1 \<Rightarrow>
          (let loc2 = loc1\<lparr>images_processed := images_processed loc1 + length (data outputs)\<rparr>
           in if n \<le> int (images_processed loc2) then (Inr loc2, st1)
              else batch_loop model n (Suc i) bs loc2 st1))))"

definition embedding_cols :: "string list" where
  "embedding_cols = map (\<lambda>i. ''emb_'' @ str_nat i) [0..<128]"

text \<open>The statements after the \<open>try\<close>, from \<open>embs = deepcopy(fc1_embeds[:n])\<close> on.\<close>

definition build_frame :: "int \<Rightarrow> locals \<Rightarrow> py_exn + dataframe" where
  "build_frame n loc =
     (case fc1_embeds loc of
        None \<Rightarrow> Inl UnboundLocalError
      | Some e \<Rightarrow>
     (case target loc of
        None \<Rightarrow> Inl UnboundLocalError
      | Some t \<Rightarrow>
     (case idx_to_classes (py_slice_to n t) of
        Inl x \<Rightarrow> Inl x
      | Inr labels \<Rightarrow>
     (case DataFrame_ndarray (e\<lparr>data := py_slice_to n (data e)\<rparr>) embedding_cols of
        Inl x \<Rightarrow> Inl x
      | Inr baseline_embeddings \<Rightarrow>
     (case output_scores loc of
        None \<Rightarrow> Inl UnboundLocalError
      | Some s \<Rightarrow>
     (case DataFrame_ndarray (s\<lparr>data := py_slice_to n (data s)\<rparr>) CIFAR_CLASSES of
        Inl x \<Rightarrow> Inl x
      | Inr baseline_predictions \<Rightarrow>
          Inr (concat_columns
                 [baseline_embeddings, baseline_predictions,
                  DataFrame_list labels ''target''])))))))"

text \<open>
  \<open>generate_embeddings(model, device, dataloader, n)\<close>. The handler
  \<open>except Exception as e: fc1_hook.remove(); raise\<close> covers the loop only; the hook is not
  removed on the other paths.
\<close>

definition generate_embeddings ::
  "'img resnet \<Rightarrow> ('img \<times> int) list list \<Rightarrow> int \<Rightarrow> interp \<Rightarrow>
   (py_exn + dataframe) \<times> interp" where
  "generate_embeddings model dataloader n st =
     (case register_forward_hook st of
        (fc1_hook, st0) \<Rightarrow>
     (case batch_loop model n 0 dataloader
             \<lparr>fc1_embeds = None, output_scores = None, target = None,
              correct_preds = 0, images_processed = 0\<rparr> st0 of
        (Inl e, st1) \<Rightarrow> (Inl e, hook_remove fc1_hook st1)
      | (Inr loc, st1) \<Rightarrow> (build_frame n loc, st1)))"

section \<open>The client and the notebook kernel\<close>

text \<open>
  Modelled from the spec: the client library (\<open>fdl.FiddlerApi\<close>) and the service behind
  it are outside the repository. The model keeps what the notebooks can observe: the IDs
  that the \<open>list_\<close> calls return, and the log of the calls made. A create, upload or add
  call lists a new ID afterwards and is refused (\<open>ClientError\<close>) for an ID already
  listed; whether a batch of events is accepted is decided by the service (\<open>accepts\<close>).
\<close>

datatype api_call =
  CreateProject string
| UploadDataset string string
| AddModel string string string
| PublishEventsBatch string string dataframe string

record fiddler =
  projects :: "string list"
  datasets :: "(string \<times> string) list"
  models :: "(string \<times> string) list"
  api_log :: "api_call list"
  accepts :: "dataframe \<Rightarrow> bool"

definition list_projects :: "fiddler \<Rightarrow> string list" where
  "list_projects cl = projects cl"

definition list_datasets :: "fiddler \<Rightarrow> string \<Rightarrow> string list" where
  "list_datasets cl project_id = map snd (filter (\<lambda>(p, d). p = project_id) (datasets cl))"

definition list_models :: "fiddler \<Rightarrow> string \<Rightarrow> string list" where
  "list_models cl project_id = map snd (filter (\<lambda>(p, m). p = project_id) (models cl))"

definition create_project :: "string \<Rightarrow> fiddler \<Rightarrow> py_exn option \<times> fiddler" where
  "create_project project_id cl =
     (let cl1 = cl\<lparr>api_log := api_log cl @ [CreateProject project_id]\<rparr>
      in if project_id \<in> set (projects cl) then (Some ClientError, cl1)
         else (None, cl1\<lparr>projects := projects cl @ [project_id]\<rparr>))"

definition upload_dataset :: "string \<Rightarrow> string \<Rightarrow> fiddler \<Rightarrow> py_exn option \<times> fiddler" where
  "upload_dataset project_id dataset_id cl =
     (let cl1 = cl\<lparr>api_log := api_log cl @ [UploadDataset project_id dataset_id]\<rparr>
      in if (project_id, dataset_id) \<in> set (datasets cl) then (Some ClientError, cl1)
         else (None, cl1\<lparr>datasets := datasets cl @ [(project_id, dataset_id)]\<rparr>))"

definition add_model ::
  "string \<Rightarrow> string \<Rightarrow> string \<Rightarrow> fiddler \<Rightarrow> py_exn option \<times> fiddler" where
  "add_model project_id dataset_id model_id cl =
     (let cl1 = cl\<lparr>api_log := api_log cl @ [AddModel project_id dataset_id model_id]\<rparr>
      in if (project_id, model_id) \<in> set (models cl) then (Some ClientError, cl1)
         else (None, cl1\<lparr>models := models cl @ [(project_id, model_id)]\<rparr>))"

definition publish_events_batch ::
  "string \<Rightarrow> string \<Rightarrow> dataframe \<Rightarrow> string \<Rightarrow> fiddler \<Rightarrow> py_exn option \<times> fiddler" where
  "publish_events_batch project_id model_id batch_source timestamp_field cl =
     (let cl1 = cl\<lparr>api_log := api_log cl
                   @ [PublishEventsBatch project_id model_id batch_source timestamp_field]\<rparr>
      in if accepts cl batch_source then (None, cl1) else (Some ClientError, cl1))"

text \<open>
  The arguments of \<open>ModelInfo.from_dataset_info\<close> that the claims are about.
\<close>

record model_info =
  mi_features :: "string list"
  mi_target :: string
  mi_outputs :: "string list"

text \<open>
  The kernel of a running notebook: the global variables the cells assign (\<open>None\<close> is an
  unbound name; \<open>dataset_info\<close> is represented by the frame it was inferred from and
  \<open>the_model_info\<close> is the variable \<open>model_info\<close>), the
  interpreter state of the extractor, the dataframe objects by address, and the client.
\<close>

record kernel =
  PROJECT_ID :: "string option"
  DATASET_ID :: "string option"
  MODEL_ID :: "string option"
  baseline_df :: "dataframe option"
  dataset_info :: "dataframe option"
  the_model_info :: "model_info option"
  interp_state :: interp
  heap :: "dataframe list"
  client :: fiddler

definition call :: "(fiddler \<Rightarrow> py_exn option \<times> fiddler) \<Rightarrow> kernel \<Rightarrow> py_exn option \<times> kernel" where
  "call f k = (case f (client k) of (r, cl) \<Rightarrow> (r, k\<lparr>client := cl\<rparr>))"

section \<open>The guarded onboarding cells\<close>

text \<open>
  \<^verbatim>\<open>PROJECT_ID = '...'\<close>
  \<^verbatim>\<open>if not PROJECT_ID in client.list_projects(): client.create_project(PROJECT_ID)\<close>
  (the same cell in the NLP and the image notebook, with its own ID; the \<open>print\<close>
  calls change no state).
\<close>

definition project_cell :: "string \<Rightarrow> kernel \<Rightarrow> py_exn option \<times> kernel" where
  "project_cell pid k =
     (let k1 = k\<lparr>PROJECT_ID := Some pid\<rparr>
      in if pid \<notin> set (list_projects (client k1)) then call (create_project pid) k1
         else (None, k1))"

definition nlp_project_cell :: "kernel \<Rightarrow> py_exn option \<times> kernel" where
  "nlp_project_cell = project_cell ''simple_nlp_example''"

definition image_project_cell :: "kernel \<Rightarrow> py_exn option \<times> kernel" where
  "image_project_cell = project_cell ''image_monitoring''"

text \<open>
  \<^verbatim>\<open>DATASET_ID = '...'\<close>
  \<^verbatim>\<open>dataset_info = fdl.DatasetInfo.from_dataframe(baseline_df)\<close>
  \<^verbatim>\<open>if not DATASET_ID in client.list_datasets(project_id=PROJECT_ID): client.upload_dataset(...)\<close>
\<close>

definition dataset_cell :: "string \<Rightarrow> kernel \<Rightarrow> py_exn option \<times> kernel" where
  "dataset_cell did k =
     (let k1 = k\<lparr>DATASET_ID := Some did\<rparr>
      in case baseline_df k1 of
           None \<Rightarrow> (Some NameError, k1)
         | Some df \<Rightarrow>
             (let k2 = k1\<lparr>dataset_info := Some df\<rparr>
              in case PROJECT_ID k2 of
                   None \<Rightarrow> (Some NameError, k2)
                 | Some pid \<Rightarrow>
                     if did \<notin> set (list_datasets (client k2) pid)
                     then call (upload_dataset pid did) k2
                     else (None, k2)))"

definition nlp_dataset_cell :: "kernel \<Rightarrow> py_exn option \<times> kernel" where
  "nlp_dataset_cell = dataset_cell ''newsgroups_1''"

definition image_dataset_cell :: "kernel \<Rightarrow> py_exn option \<times> kernel" where
  "image_dataset_cell = dataset_cell ''cifar10_baseline''"

text \<open>
  NLP notebook:
  \<^verbatim>\<open>MODEL_ID = 'newsgroup_model_v1'\<close>
  \<^verbatim>\<open>if not MODEL_ID in client.list_models(project_id=PROJECT_ID): client.add_model(...)\<close>
  The arguments are evaluated in the order \<open>PROJECT_ID\<close>, \<open>DATASET_ID\<close>, \<open>MODEL_ID\<close>,
  \<open>model_info\<close>.
\<close>

definition nlp_model_cell :: "kernel \<Rightarrow> py_exn option \<times> kernel" where
  "nlp_model_cell k =
     (let k1 = k\<lparr>MODEL_ID := Some ''newsgroup_model_v1''\<rparr>
      in case PROJECT_ID k1 of
           None \<Rightarrow> (Some NameError, k1)
         | Some pid \<Rightarrow>
             if ''newsgroup_model_v1'' \<notin> set (list_models (client k1) pid) then
               (case DATASET_ID k1 of
                  None \<Rightarrow> (Some NameError, k1)
                | Some did \<Rightarrow>
                    (case the_model_info k1 of
                       None \<Rightarrow> (Some NameError, k1)
                     | Some mi \<Rightarrow> call (add_model pid did ''newsgroup_model_v1'') k1))
             else (None, k1))"

text \<open>
  Image notebook: \<^verbatim>\<open>MODEL_ID = 'resnet18'\<close> and \<^verbatim>\<open>client.add_model(...)\<close>, with no test.
\<close>

definition image_model_cell :: "kernel \<Rightarrow> py_exn option \<times> kernel" where
  "image_model_cell k =
     (let k1 = k\<lparr>MODEL_ID := Some ''resnet18''\<rparr>
      in case PROJECT_ID k1 of
           None \<Rightarrow> (Some NameError, k1)
         | Some pid \<Rightarrow>
             (case DATASET_ID k1 of
                None \<Rightarrow> (Some NameError, k1)
              | Some did \<Rightarrow>
                  (case the_model_info k1 of
                     None \<Rightarrow> (Some NameError, k1)
                   | Some mi \<Rightarrow> call (add_model pid did ''resnet18'') k1)))"

section \<open>Image notebook: publishing the events\<close>

text \<open>
  Modelled from the spec: \<open>df.sample(n)\<close> draws \<open>n\<close> rows without replacement and raises
  \<open>ValueError\<close> when the frame has fewer rows; the result is a new frame object. The
  random generator's draw is an input: \<open>perm\<close> is the permutation of the row positions
  it produced, of which the first \<open>n\<close> are taken.
\<close>

definition DataFrame_sample ::
  "nat \<Rightarrow> nat \<Rightarrow> nat list \<Rightarrow> kernel \<Rightarrow> (py_exn + nat) \<times> kernel" where
  "DataFrame_sample a n perm k =
     (let df = heap k ! a
      in if length (rows df) < n then (Inl ValueError, k)
         else (Inr (length (heap k)),
               k\<lparr>heap := heap k @ [df\<lparr>rows := map (\<lambda>p. rows df ! p) (take n perm)\<rparr>]\<rparr>))"

text \<open>
  Modelled from the spec: \<open>df[c] = v\<close> with a scalar \<open>v\<close> changes the frame object in
  place: a column labelled \<open>c\<close> is overwritten, otherwise the column is appended.
\<close>

definition setitem_scalar :: "dataframe \<Rightarrow> string \<Rightarrow> cell \<Rightarrow> dataframe" where
  "setitem_scalar df c v =
     (if c \<in> set (columns df)
      then df\<lparr>rows := map (\<lambda>r. map (\<lambda>(l, x). if l = c then v else x) (zip (columns df) r))
                           (rows df)\<rparr>
      else df\<lparr>columns := columns df @ [c], rows := map (\<lambda>r. r @ [v]) (rows df)\<rparr>)"

definition DataFrame_setitem :: "nat \<Rightarrow> string \<Rightarrow> cell \<Rightarrow> kernel \<Rightarrow> kernel" where
  "DataFrame_setitem a c v k = k\<lparr>heap := (heap k)[a := setitem_scalar (heap k ! a) c v]\<rparr>"

text \<open>
  What the loop reads from outside: the test dataloader obtained for a drift type, the
  clock reading \<open>time.time() * 1000\<close> and the generator's draw in iteration \<open>(i, day)\<close>.
\<close>

record 'img env =
  testloader :: "string \<Rightarrow> ('img \<times> int) list list"
  clock :: "nat \<Rightarrow> nat \<Rightarrow> real"
  rng :: "nat \<Rightarrow> nat \<Rightarrow> nat \<Rightarrow> nat list"

text \<open>The body of \<open>for day in range(week_days)\<close>; \<open>prod_df\<close> is the address of the frame.\<close>

definition publish_day ::
  "'img env \<Rightarrow> nat \<Rightarrow> nat \<Rightarrow> nat \<Rightarrow> kernel \<Rightarrow> py_exn option \<times> kernel" where
  "publish_day e i day prod_df k =
     (case DataFrame_sample prod_df 1000
             (rng e i day (length (rows (heap k ! prod_df)))) k of
        (Inl x, k1) \<Rightarrow> (Some x, k1)
      | (Inr events_df, k1) \<Rightarrow>
          (let k2 = DataFrame_setitem events_df ''timestamp''
                      (IntV (timestamp (clock e i day) i day)) k1
           in case PROJECT_ID k2 of
                None \<Rightarrow> (Some NameError, k2)
              | Some pid \<Rightarrow>
                  (case MODEL_ID k2 of
                     None \<Rightarrow> (Some NameError, k2)
                   | Some mid \<Rightarrow>
                       call (publish_events_batch pid mid (heap k2 ! events_df) ''timestamp'')
                         k2)))"





text \<open>The frame without the columns labelled \<open>c\<close>, to compare the other columns.\<close>

definition other_columns :: "string \<Rightarrow> dataframe \<Rightarrow> dataframe" where
  "other_columns c df =
     \<lparr>columns = filter (\<lambda>l. l \<noteq> c) (columns df),
      rows = map (\<lambda>r. map snd (filter (\<lambda>(l, x). l \<noteq> c) (zip (columns df) r))) (rows df)\<rparr>"

text \<open>The cell of row \<open>r\<close> in the column labelled \<open>c\<close>.\<close>

definition cell_of :: "dataframe \<Rightarrow> cell list \<Rightarrow> string \<Rightarrow> cell option" where
  "cell_of df r c = map_of (zip (columns df) r) c"

section \<open>NLP notebook: the baseline and the feature list\<close>

text \<open>Modelled from the spec: \<open>df[c]\<close> raises \<open>KeyError\<close> for a label that is no column.\<close>

definition getitem :: "dataframe \<Rightarrow> string \<Rightarrow> py_exn + cell list" where
  "getitem df c =
     (if c \<in> set (columns df)
      then Inr (map (\<lambda>r. case map_of (zip (columns df) r) c of Some x \<Rightarrow> x | None \<Rightarrow> NaN)
                  (rows df))
      else Inl KeyError)"

text \<open>
  Modelled from the spec: \<open>df.drop(columns=labels)\<close> raises \<open>KeyError\<close> when a label is no
  column and removes every column carrying one of the labels.
\<close>

definition drop_columns :: "dataframe \<Rightarrow> string list \<Rightarrow> py_exn + dataframe" where
  "drop_columns df labels =
     (if \<not> set labels \<subseteq> set (columns df) then Inl KeyError
      else Inr \<lparr>columns = filter (\<lambda>l. l \<notin> set labels) (columns df),
                rows = map (\<lambda>r. map snd (filter (\<lambda>(l, x). l \<notin> set labels)
                                                (zip (columns df) r)))
                           (rows df)\<rparr>)"

text \<open>\<^verbatim>\<open>embedding_cols = ['f'+str(c+1) for c in range(len(embedding_cols))]\<close>\<close>

definition nlp_embedding_cols :: "nat \<Rightarrow> string list" where
  "nlp_embedding_cols m = map (\<lambda>c. ''f'' @ str_nat (c + 1)) [0..<m]"

text \<open>
  Modelled from the spec: \<open>Series.squeeze()\<close> turns a series of exactly one element
  into that element and leaves every other series as it is.
\<close>

datatype squeezed = Scalar cell | Series "cell list"

definition squeeze :: "cell list \<Rightarrow> squeezed" where
  "squeeze xs = (case xs of [x] \<Rightarrow> Scalar x | _ \<Rightarrow> Series xs)"

text \<open>
  The cells from \<open>base_series = baseline_df['news'].squeeze()\<close> to
  \<open>baseline_df = pd.concat([baseline_df, vectorized_df], axis=1)\<close>.

  Modelled from the spec: the vectorizer (scikit-learn) is outside the repository.
  \<open>vectorizer.fit\<close> refuses a single string with \<open>ValueError\<close> and cannot iterate over
  another scalar (\<open>TypeError\<close>). On a series, fitting and transforming is the input
  \<open>tfidf\<close>: it raises what the library raises (an empty vocabulary, for one) or returns
  the matrix of \<open>vectorizer.transform\<close>, which has one column per feature name;
  \<open>pd.DataFrame.sparse.from_spmatrix\<close> checks the width against the labels as the
  dataframe constructor does.
\<close>

definition nlp_baseline ::
  "(cell list \<Rightarrow> py_exn + ndarray) \<Rightarrow> dataframe \<Rightarrow> py_exn + dataframe" where
  "nlp_baseline tfidf baseline =
     (case getitem baseline ''news'' of
        Inl x \<Rightarrow> Inl x
      | Inr news \<Rightarrow>
     (case squeeze news of
        Scalar v \<Rightarrow> (case v of Str text \<Rightarrow> Inl ValueError | _ \<Rightarrow> Inl TypeError)
      | Series base_series \<Rightarrow>
     (case tfidf base_series of
        Inl x \<Rightarrow> Inl x
      | Inr tfidf_baseline_sparse \<Rightarrow>
     (case DataFrame_ndarray tfidf_baseline_sparse
             (nlp_embedding_cols (ncols tfidf_baseline_sparse)) of
        Inl x \<Rightarrow> Inl x
      | Inr vectorized_df \<Rightarrow>
     (case drop_columns baseline [''news''] of
        Inl x \<Rightarrow> Inl x
      | Inr dropped \<Rightarrow> Inr (concat_columns [dropped, vectorized_df]))))))"

text \<open>
  Modelled from the spec: \<open>Index.drop(labels, errors='raise')\<close> of pandas is outside the
  repository. It takes the labels as ONE argument (a label or a list of labels); its
  second parameter is \<open>errors\<close>. It raises \<open>KeyError\<close> when a label is missing, unless
  \<open>errors\<close> is \<open>'ignore'\<close>, and removes the entries equal to one of the labels.
\<close>

definition Index_drop :: "string list \<Rightarrow> string list \<Rightarrow> string \<Rightarrow> py_exn + string list" where
  "Index_drop idx labels errors =
     (if \<not> set labels \<subseteq> set idx \<and> errors \<noteq> ''ignore'' then Inl KeyError
      else Inr (filter (\<lambda>l. l \<notin> set labels) idx))"

text \<open>
  \<^verbatim>\<open>features = baseline_df.columns.drop('target', 'predicted_score')\<close>: the first
  positional argument is \<open>labels\<close>, the second is \<open>errors\<close>.
\<close>

definition nlp_features :: "dataframe \<Rightarrow> py_exn + string list" where
  "nlp_features baseline = Index_drop (columns baseline) [''target''] ''predicted_score''"

text \<open>
  \<^verbatim>\<open>target = 'target'\<close>, \<^verbatim>\<open>outputs = ['predicted_score']\<close> and the call of
  \<open>ModelInfo.from_dataset_info\<close> with \<open>features = features\<close>.
\<close>

definition nlp_model_info :: "dataframe \<Rightarrow> py_exn + model_info" where
  "nlp_model_info baseline =
     (case nlp_features baseline of
        Inl x \<Rightarrow> Inl x
      | Inr fs \<Rightarrow>
          Inr \<lparr>mi_features = fs, mi_target = ''target'',
               mi_outputs = [''predicted_score'']\<rparr>)"

subsection \<open>Shape invariants and sample inputs\<close>

text \<open>Every row of an array has the declared width.\<close>

definition wf_ndarray :: "ndarray \<Rightarrow> bool" where
  "wf_ndarray a = list_all (\<lambda>r. length r = ncols a) (data a)"

text \<open>
  The loop variables after at least one batch: all three accumulators are bound, have the
  widths of the two layers, and hold one row per processed image; \<open>labels\<close> are the
  labels of those images.
\<close>

definition bound_locals :: "'img resnet \<Rightarrow> locals \<Rightarrow> int list \<Rightarrow> bool" where
  "bound_locals model loc labels =
     (fc1_embeds loc \<noteq> None \<and> output_scores loc \<noteq> None \<and> target loc = Some labels
      \<and> ncols (the (fc1_embeds loc)) = out_features (fc_0 model)
      \<and> ncols (the (output_scores loc)) = out_features (fc_2 model)
      \<and> wf_ndarray (the (fc1_embeds loc)) \<and> wf_ndarray (the (output_scores loc))
      \<and> length (data (the (fc1_embeds loc))) = length labels
      \<and> length (data (the (output_scores loc))) = length labels
      \<and> images_processed loc = length labels)"

text \<open>A cell holding a number.\<close>

definition is_Num :: "cell \<Rightarrow> bool" where
  "is_Num c = (case c of Num x \<Rightarrow> True | _ \<Rightarrow> False)"

text \<open>Reading a decimal string back, to show that \<open>str\<close> is injective.\<close>

definition nat_of_string :: "string \<Rightarrow> nat" where
  "nat_of_string s = fold (\<lambda>c a. 10 * a + (of_char c - 48)) s 0"

text \<open>A loaded model with all weights zero, and the state of a fresh interpreter.\<close>

definition zero_model :: "nat resnet" where
  "zero_model = load_model (\<lambda>im k. 0) (\<lambda>j k. 0) (\<lambda>j. 0) (\<lambda>j k. 0) (\<lambda>j. 0)"

definition fresh_interp :: interp where
  "fresh_interp = \<lparr>view_fc1_output_embeds = None, fc1_forward_hooks = [], next_handle = 0\<rparr>"

text \<open>Sample inputs for the NLP notebook and the onboarding cells.\<close>

definition sample_baseline :: dataframe where
  "sample_baseline =
     \<lparr>columns = [''news'', ''target'', ''predicted_score''],
      rows = [[Str ''some text'', IntV 1, Num (1 / 2)]]\<rparr>"

definition served :: fiddler where
  "served =
     \<lparr>projects = [''simple_nlp_example'', ''image_monitoring''],
      datasets = [(''simple_nlp_example'', ''newsgroups_1''),
                  (''image_monitoring'', ''cifar10_baseline'')],
      models = [(''simple_nlp_example'', ''newsgroup_model_v1''),
                (''image_monitoring'', ''resnet18'')],
      api_log = [], accepts = (\<lambda>batch. True)\<rparr>"

definition image_kernel :: kernel where
  "image_kernel =
     \<lparr>PROJECT_ID = Some ''image_monitoring'', DATASET_ID = Some ''cifar10_baseline'',
      MODEL_ID = Some ''resnet18'', baseline_df = Some sample_baseline,
      dataset_info = Some sample_baseline,
      the_model_info = Some \<lparr>mi_features = [], mi_target = ''target'', mi_outputs = []\<rparr>,
      interp_state = fresh_interp, heap = [], client = served\<rparr>"

definition nlp_kernel :: kernel where
  "nlp_kernel =
     image_kernel\<lparr>PROJECT_ID := Some ''simple_nlp_example'', DATASET_ID := Some ''newsgroups_1'',
                  MODEL_ID := Some ''newsgroup_model_v1''\<rparr>"

text \<open>
  Sample inputs for the baseline packager: a baseline of three documents, the
  vectorizer's result on them (the documents are one word each, so there is one feature
  per document and the normalised matrix is the identity; the sample vectorizer is
  defined on this series only), and a baseline that already has a column \<open>f1\<close>.
\<close>

definition news_baseline :: dataframe where
  "news_baseline =
     \<lparr>columns = [''news'', ''target'', ''predicted_score''],
      rows = [[Str ''apple'', IntV 0, Num (1 / 4)],
              [Str ''banana'', IntV 1, Num (3 / 4)],
              [Str ''cherry'', IntV 0, Num (1 / 2)]]\<rparr>"

definition sample_tfidf :: "cell list \<Rightarrow> py_exn + ndarray" where
  "sample_tfidf base_series =
     (if base_series = [Str ''apple'', Str ''banana'', Str ''cherry'']
      then Inr \<lparr>ncols = 3, data = [[1, 0, 0], [0, 1, 0], [0, 0, 1]]\<rparr>
      else Inl ValueError)"

definition colliding_baseline :: dataframe where
  "colliding_baseline =
     \<lparr>columns = [''news'', ''f1''],
      rows = [[Str ''apple'', IntV 1], [Str ''banana'', IntV 2], [Str ''cherry'', IntV 3]]\<rparr>"


definition sample_env :: "nat env" where
  "sample_env =
     \<lparr>testloader = (\<lambda>drift_type. [[(0, 3)]]),
      clock = (\<lambda>i day. 1800000000000),
      rng = (\<lambda>i day N. [0..<N])\<rparr>"

definition big_frame :: dataframe where
  "big_frame = \<lparr>columns = [''a''], rows = replicate 1000 [Num 0]\<rparr>"

definition publish_kernel :: kernel where
  "publish_kernel = image_kernel\<lparr>heap := [big_frame]\<rparr>"


section \<open>Properties of the batch timestamp\<close>

lemma py_int_of_int: "py_int (of_int k) = k"
  by (simp add: py_int_def)

lemma bexp_bounds:
  assumes "0 < x"
  shows "2 powi bexp x \<le> x \<and> x < 2 powi (bexp x + 1)"
proof (cases "1 \<le> x")
  case True
  let ?m = "\<lfloor>x\<rfloor>"
  from True have m: "0 < ?m" by linarith
  from bitlen_bounds [OF m] have b: "2 ^ nat (bitlen ?m - 1) \<le> ?m" "?m < 2 ^ nat (bitlen ?m)"
    by simp_all
  from m have pos: "1 \<le> bitlen ?m" by (simp add: bitlen_alt_def)
  have "real_of_int (2 ^ nat (bitlen ?m - 1)) \<le> real_of_int ?m" using b(1) by linarith
  also have "\<dots> \<le> x" by (rule of_int_floor_le)
  finally have lo: "2 powi (bitlen ?m - 1) \<le> x" using pos by (simp add: power_int_def)
  from b(2) have "?m + 1 \<le> 2 ^ nat (bitlen ?m)" by simp
  then have "real_of_int (?m + 1) \<le> real_of_int (2 ^ nat (bitlen ?m))" by linarith
  then have "real_of_int ?m + 1 \<le> 2 ^ nat (bitlen ?m)" by simp
  moreover have "x < real_of_int ?m + 1" by linarith
  ultimately have "x < 2 ^ nat (bitlen ?m)" by linarith
  then have hi: "x < 2 powi (bitlen ?m - 1 + 1)" using pos by (simp add: power_int_def)
  from lo hi True show ?thesis by (simp add: bexp_def)
next
  case False
  let ?y = "1 / x"
  let ?c = "\<lceil>?y\<rceil>"
  let ?n = "bitlen (?c - 1)"
  from False assms have y1: "1 < ?y" by simp
  then have c: "0 < ?c - 1" by linarith
  from bitlen_bounds [OF c] have b: "2 ^ nat (?n - 1) \<le> ?c - 1" "?c - 1 < 2 ^ nat ?n"
    by simp_all
  from c have pos: "1 \<le> ?n" by (simp add: bitlen_alt_def)
  have "real_of_int (2 ^ nat (?n - 1)) \<le> real_of_int (?c - 1)" using b(1) by linarith
  also have "\<dots> < ?y" by linarith
  finally have "2 ^ nat (?n - 1) < 1 / x" by simp
  with assms have "x * 2 ^ nat (?n - 1) < 1" by (simp add: field_simps)
  then have "x < 1 / 2 ^ nat (?n - 1)" by (simp add: field_simps)
  moreover have "- ?n + 1 = - (?n - 1)" by simp
  ultimately have hi: "x < 2 powi (- ?n + 1)"
    using pos by (simp only: power_int_minus_divide) (simp add: power_int_def)
  from b(2) have "?c \<le> 2 ^ nat ?n" by simp
  then have "real_of_int ?c \<le> real_of_int (2 ^ nat ?n)" by linarith
  then have "real_of_int ?c \<le> 2 ^ nat ?n" by simp
  moreover have "?y \<le> real_of_int ?c" by (rule le_of_int_ceiling)
  ultimately have "1 / x \<le> 2 ^ nat ?n" by linarith
  with assms have "1 \<le> x * 2 ^ nat ?n" by (simp add: field_simps)
  then have "1 / 2 ^ nat ?n \<le> x" by (simp add: field_simps)
  then have lo: "2 powi (- ?n) \<le> x"
    using pos by (simp only: power_int_minus_divide) (simp add: power_int_def)
  from lo hi False show ?thesis by (simp add: bexp_def)
qed

lemma round_even_of_int: "round_even (of_int n) = n"
  by (simp add: round_even_def)

lemma round64_exact:
  assumes x: "x = of_int k * 2 powi q" and bound: "\<bar>x\<bar> < 2 powi (q + 53)"
  shows "round64 x = x"
proof (cases "x = 0")
  case True
  then show ?thesis by (simp add: round64_def)
next
  case False
  let ?e = "bexp \<bar>x\<bar>"
  from False have "0 < \<bar>x\<bar>" by simp
  from bexp_bounds [OF this] have lo: "2 powi ?e \<le> \<bar>x\<bar>" by simp
  have "?e < q + 53"
  proof (rule ccontr)
    assume "\<not> ?e < q + 53"
    then have "q + 53 \<le> ?e" by simp
    then have "(2::real) powi (q + 53) \<le> 2 powi ?e" by (intro power_int_increasing) simp_all
    with lo bound show False by linarith
  qed
  then have d: "0 \<le> q - (?e - 52)" by simp
  have "x / 2 powi (?e - 52) = of_int k * (2 powi q / 2 powi (?e - 52))" by (simp add: x)
  also have "2 powi q / 2 powi (?e - 52) = (2::real) powi (q - (?e - 52))"
    by (simp add: power_int_diff)
  also have "\<dots> = 2 ^ nat (q - (?e - 52))" using d by (simp add: power_int_def)
  finally have "x / 2 powi (?e - 52) = of_int (k * 2 ^ nat (q - (?e - 52)))" by simp
  then have "round_even (x / 2 powi (?e - 52)) = k * 2 ^ nat (q - (?e - 52))"
    by (simp only: round_even_of_int)
  then have "round64 x = of_int (k * 2 ^ nat (q - (?e - 52))) * 2 powi (?e - 52)"
    using False by (simp add: round64_def)
  also have "\<dots> = of_int k * (2 powi (q - (?e - 52)) * 2 powi (?e - 52))"
    using d by (simp add: power_int_def)
  also have "2 powi (q - (?e - 52)) * 2 powi (?e - 52) = (2::real) powi q"
    by (simp flip: power_int_add)
  finally show ?thesis by (simp add: x)
qed

lemma round64_of_int:
  assumes "\<bar>k\<bar> < 2 ^ 53"
  shows "round64 (of_int k) = of_int k"
proof -
  from assms have "\<bar>real_of_int k\<bar> < 2 ^ 53"
    by (metis of_int_abs of_int_less_numeral_power_cancel_iff)
  then show ?thesis using round64_exact [of "of_int k" k 0] by simp
qed

lemma round64_fixed:
  assumes fixed: "round64 x = x" and pos: "0 < x" and small: "x < 2 ^ 53"
  shows "\<exists>k q. x = of_int k * 2 powi q \<and> q \<le> 0 \<and> x < 2 powi (q + 53)"
proof -
  let ?e = "bexp x"
  from pos have ax: "\<bar>x\<bar> = x" by simp
  from bexp_bounds [OF pos] have b: "2 powi ?e \<le> x" "x < 2 powi (?e + 1)" by simp_all
  have "?e < 53"
  proof (rule ccontr)
    assume "\<not> ?e < 53"
    then have "53 \<le> ?e" by simp
    then have "(2::real) powi 53 \<le> 2 powi ?e" by (intro power_int_increasing) simp_all
    with b(1) small show False by simp
  qed
  then have q: "?e - 52 \<le> 0" by simp
  from fixed pos have "x = of_int (round_even (x / 2 powi (?e - 52))) * 2 powi (?e - 52)"
    by (simp add: round64_def ax)
  moreover have "x < 2 powi (?e - 52 + 53)" using b(2) by (simp add: algebra_simps)
  ultimately show ?thesis using q by blast
qed

lemma round64_sub_int:
  assumes x: "x = of_int k * 2 powi q" and q: "q \<le> 0"
    and bound: "\<bar>x - of_int w\<bar> < 2 powi (q + 53)"
  shows "round64 (x - of_int w) = x - of_int w"
proof -
  from q have "(2::real) powi q * 2 ^ nat (- q) = 2 powi q * 2 powi (- q)"
    by (simp add: power_int_def)
  also have "\<dots> = 1" by (simp flip: power_int_add)
  finally have one: "(2::real) powi q * 2 ^ nat (- q) = 1" .
  have "x - of_int w = of_int k * 2 powi q - of_int w * (2 powi q * 2 ^ nat (- q))"
    by (simp add: x one)
  also have "\<dots> = of_int (k - w * 2 ^ nat (- q)) * 2 powi q"
    by (simp add: algebra_simps)
  finally have "x - of_int w = of_int (k - w * 2 ^ nat (- q)) * 2 powi q" .
  from round64_exact [OF this bound] show ?thesis .
qed

lemma week_offset_exact:
  assumes "i \<le> 2"
  shows "week_offset i = of_int ((2 - int i) * 604800000)"
proof -
  let ?k = "(2 - int i) * 7 * 24 * 60 * 60"
  from assms have k: "\<bar>?k\<bar> < 2 ^ 53" "\<bar>?k * 1000\<bar> < 2 ^ 53" by simp_all
  have "round64 (real_of_int ?k) * 1000 = real_of_int (?k * 1000)"
    unfolding round64_of_int [OF k(1)] by simp
  then have "week_offset i = real_of_int (?k * 1000)"
    unfolding week_offset_def by (simp only: round64_of_int [OF k(2)])
  then show ?thesis by simp
qed

lemma day_offset_exact: "day_offset = 86400000"
proof -
  have k: "\<bar>24 * 60 * 60 :: int\<bar> < 2 ^ 53" "\<bar>24 * 60 * 60 * 1000 :: int\<bar> < 2 ^ 53"
    by simp_all
  have "round64 (real_of_int (24 * 60 * 60)) * 1000 = real_of_int (24 * 60 * 60 * 1000)"
    unfolding round64_of_int [OF k(1)] by simp
  then have "day_offset = real_of_int (24 * 60 * 60 * 1000)"
    unfolding day_offset_def by (simp only: round64_of_int [OF k(2)])
  then show ?thesis by simp
qed

lemma day_term_exact:
  assumes "day \<le> 5"
  shows "round64 (round64 (real day) * day_offset) = of_int (int day * 86400000)"
proof -
  from assms have k: "\<bar>int day\<bar> < 2 ^ 53" "\<bar>int day * 86400000\<bar> < 2 ^ 53" by simp_all
  have "round64 (real day) = real_of_int (int day)"
    using round64_of_int [OF k(1)] by simp
  then have "round64 (real day) * day_offset = real_of_int (int day * 86400000)"
    by (simp add: day_offset_exact)
  then show ?thesis by (simp only: round64_of_int [OF k(2)])
qed

lemma timestamp_value:
  assumes i: "i \<le> 2" and day: "day \<le> 5"
    and fixed: "round64 now = now" and lo: "1641600000 \<le> now" and hi: "now < 2 ^ 53"
  shows "timestamp now i day = \<lfloor>now\<rfloor> - (2 - int i) * 604800000 - int day * 86400000"
proof -
  let ?W = "(2 - int i) * 604800000"
  let ?D = "int day * 86400000"
  from lo have pos: "0 < now" by simp
  from round64_fixed [OF fixed pos hi] obtain k q where
    kq: "now = of_int k * 2 powi q" "q \<le> 0" "now < 2 powi (q + 53)" by blast
  from i have W: "0 \<le> ?W" "?W \<le> 1209600000" by simp_all
  from day have D: "0 \<le> ?D" "?D \<le> 432000000" by simp_all
  have Wr: "0 \<le> real_of_int ?W" "real_of_int ?W \<le> 1209600000"
  proof -
    show "0 \<le> real_of_int ?W" using W(1) by (rule of_int_0_le_iff [THEN iffD2])
    have "real_of_int ?W \<le> real_of_int 1209600000"
      using W(2) by (rule of_int_le_iff [THEN iffD2])
    then show "real_of_int ?W \<le> 1209600000" by simp
  qed
  have Dr: "0 \<le> real_of_int ?D" "real_of_int ?D \<le> 432000000"
  proof -
    show "0 \<le> real_of_int ?D" using D(1) by (rule of_int_0_le_iff [THEN iffD2])
    have "real_of_int ?D \<le> real_of_int 432000000"
      using D(2) by (rule of_int_le_iff [THEN iffD2])
    then show "real_of_int ?D \<le> 432000000" by simp
  qed
  from Wr lo kq(3) have "\<bar>now - of_int ?W\<bar> < 2 powi (q + 53)" by linarith
  from round64_sub_int [OF kq(1,2) this]
  have r1: "round64 (now - of_int ?W) = now - of_int ?W" .
  have sum: "real_of_int (?W + ?D) = real_of_int ?W + real_of_int ?D" by (rule of_int_add)
  from Wr Dr lo kq(3) have "\<bar>now - of_int (?W + ?D)\<bar> < 2 powi (q + 53)"
    unfolding sum by linarith
  from round64_sub_int [OF kq(1,2) this]
  have r3: "round64 (now - of_int (?W + ?D)) = now - of_int (?W + ?D)" .
  have "now - of_int ?W - of_int ?D = now - of_int (?W + ?D)" by simp
  with r3 have r3': "round64 (now - of_int ?W - of_int ?D) = now - of_int (?W + ?D)"
    by (simp only:)
  have nonneg: "0 \<le> now - of_int (?W + ?D)"
    using Wr Dr lo unfolding sum by linarith
  have "timestamp now i day = py_int (now - of_int (?W + ?D))"
    unfolding timestamp_def
    by (simp only: week_offset_exact [OF i] day_term_exact [OF day] r1 r3')
  also have "\<dots> = \<lfloor>now - of_int (?W + ?D)\<rfloor>" using nonneg by (simp only: py_int_def if_True)
  also have "\<dots> = \<lfloor>now\<rfloor> - (?W + ?D)" by (rule floor_diff_of_int)
  finally show ?thesis by simp
qed

text \<open>
  Claim C6. Let the clock reading \<open>now\<close> be a float between 1641600000 ms (19 days after
  the epoch, the largest offset) and \<open>2\<^sup>5\<^sup>3\<close> ms. For a drift phase \<open>i \<le> 2\<close> and a day
  \<open>day \<le> 5\<close> no operation rounds, and the timestamp is the whole milliseconds of \<open>now\<close>
  minus \<open>(2-i)\<cdot>7\<cdot>24\<cdot>60\<cdot>60\<cdot>1000\<close> minus \<open>day\<cdot>24\<cdot>60\<cdot>60\<cdot>1000\<close>, which is \<open>now\<close> minus the
  offsets when \<open>now\<close> is a whole number; for a fixed day it increases strictly with the
  phase, within a phase it decreases strictly with the day, and it never exceeds \<open>now\<close>.
\<close>

theorem timestamp_offsets:
  assumes "i \<le> 2" and "day \<le> 5"
    and "round64 now = now" and "1641600000 \<le> now" and "now < 2 ^ 53"
  shows "timestamp now i day =
           \<lfloor>now\<rfloor> - (2 - int i) * 7 * 24 * 60 * 60 * 1000 - int day * 24 * 60 * 60 * 1000
       \<and> (now = of_int m \<longrightarrow> timestamp now i day =
             m - (2 - int i) * 7 * 24 * 60 * 60 * 1000 - int day * 24 * 60 * 60 * 1000)
       \<and> (\<forall>j. i < j \<and> j \<le> 2 \<longrightarrow> timestamp now i day < timestamp now j day)
       \<and> (\<forall>d. day < d \<and> d \<le> 5 \<longrightarrow> timestamp now i d < timestamp now i day)
       \<and> real_of_int (timestamp now i day) \<le> now"
proof (intro conjI allI impI)
  note v = timestamp_value [OF _ _ assms(3,4,5)]
  show a: "timestamp now i day =
           \<lfloor>now\<rfloor> - (2 - int i) * 7 * 24 * 60 * 60 * 1000 - int day * 24 * 60 * 60 * 1000"
    using v [OF assms(1,2)] by simp
  show "timestamp now i day =
             m - (2 - int i) * 7 * 24 * 60 * 60 * 1000 - int day * 24 * 60 * 60 * 1000"
    if "now = of_int m"
    using a that by simp
  show "timestamp now i day < timestamp now j day" if "i < j \<and> j \<le> 2" for j
  proof -
    from that have "int i < int j" "j \<le> 2" by simp_all
    with v [OF assms(1,2)] v [OF \<open>j \<le> 2\<close> assms(2)] show ?thesis by simp
  qed
  show "timestamp now i d < timestamp now i day" if "day < d \<and> d \<le> 5" for d
  proof -
    from that have "int day < int d" "d \<le> 5" by simp_all
    with v [OF assms(1,2)] v [OF assms(1) \<open>d \<le> 5\<close>] show ?thesis by simp
  qed
  have "0 \<le> (2 - int i) * 604800000" using assms(1) by simp
  moreover have "0 \<le> int day * 86400000" by simp
  ultimately have "timestamp now i day \<le> \<lfloor>now\<rfloor>" using v [OF assms(1,2)] by linarith
  then have "real_of_int (timestamp now i day) \<le> real_of_int \<lfloor>now\<rfloor>" by simp
  also have "\<dots> \<le> now" by (rule of_int_floor_le)
  finally show "real_of_int (timestamp now i day) \<le> now" .
qed

theorem timestamp_offsets_witness:
  "(0::nat) \<le> 2 \<and> (3::nat) \<le> 5 \<and> round64 1800000000000 = 1800000000000
   \<and> (1641600000::real) \<le> 1800000000000 \<and> (1800000000000::real) < 2 ^ 53
   \<and> timestamp 1800000000000 0 3 =
       1800000000000 - 2 * 7 * 24 * 60 * 60 * 1000 - 3 * 24 * 60 * 60 * 1000
   \<and> timestamp 1800000000000 0 3 < timestamp 1800000000000 1 3
   \<and> timestamp 1800000000000 0 4 < timestamp 1800000000000 0 3
   \<and> real_of_int (timestamp 1800000000000 0 3) \<le> 1800000000000"
proof -
  have "round64 (real_of_int 1800000000000) = real_of_int 1800000000000"
    by (rule round64_of_int) simp
  then have r: "round64 1800000000000 = 1800000000000" by simp
  have h: "(0::nat) \<le> 2" "(3::nat) \<le> 5" "round64 1800000000000 = 1800000000000"
    "(1641600000::real) \<le> 1800000000000" "(1800000000000::real) < 2 ^ 53"
    using r by simp_all
  note t = timestamp_offsets [OF h, of 1800000000000]
  from t have a: "timestamp 1800000000000 0 3 =
      1800000000000 - 2 * 7 * 24 * 60 * 60 * 1000 - 3 * 24 * 60 * 60 * 1000" by simp
  from t have "\<forall>j. 0 < j \<and> j \<le> 2 \<longrightarrow>
      timestamp 1800000000000 0 3 < timestamp 1800000000000 j 3"
    by blast
  then have b: "timestamp 1800000000000 0 3 < timestamp 1800000000000 1 3" by simp
  from t have "\<forall>d. 3 < d \<and> d \<le> 5 \<longrightarrow>
      timestamp 1800000000000 0 d < timestamp 1800000000000 0 3"
    by blast
  then have c: "timestamp 1800000000000 0 4 < timestamp 1800000000000 0 3" by simp
  from t have d: "real_of_int (timestamp 1800000000000 0 3) \<le> 1800000000000" by blast
  from h a b c d show ?thesis by blast
qed

text \<open>
  Outside that range the operations do round, and the model rounds with them: 1000 times
  a clock reading of \<open>2\<^sup>-\<^sup>7\<^sup>0\<close> s, and of 1048.574 s, in phase 0 on day 0.
\<close>

lemma timestamp_rounding_examples:
  "timestamp (round64 (round64 (1 / 2 ^ 70) * 1000)) 0 0 = - 1209600000"
  "timestamp (round64 (round64 (1048574 / 1000) * 1000)) 0 0 = - 1208551426"
  by code_simp+

section \<open>Properties of the embedding extractor\<close>

lemma linear_forward_Inr:
  assumes "linear_forward L x = Inr y"
  shows "ncols y = out_features L \<and> length (data y) = length (data x) \<and> wf_ndarray y"
  using assms by (auto simp: linear_forward_def wf_ndarray_def list_all_iff split: if_splits)

lemma wf_relu: "wf_ndarray a \<Longrightarrow> wf_ndarray (relu a)"
  by (simp add: wf_ndarray_def relu_def list_all_iff)

lemma wf_softmax: "wf_ndarray a \<Longrightarrow> wf_ndarray (softmax a)"
  by (simp add: wf_ndarray_def softmax_def list_all_iff)

lemma relu_shape: "ncols (relu a) = ncols a" "length (data (relu a)) = length (data a)"
  by (simp_all add: relu_def)

lemma forward_Inr:
  assumes "forward model inputs st = (Inr out, st')"
  shows "ncols out = out_features (fc_2 model) \<and> length (data out) = length inputs
       \<and> wf_ndarray out
       \<and> fc1_forward_hooks st' = fc1_forward_hooks st \<and> next_handle st' = next_handle st
       \<and> (fc1_forward_hooks st \<noteq> [] \<longrightarrow>
           (\<exists>h. view_fc1_output_embeds st' = Some h \<and> ncols h = out_features (fc_0 model)
              \<and> length (data h) = length inputs \<and> wf_ndarray h))"
proof -
  let ?x = "\<lparr>ncols = feature_width model,
             data = map (\<lambda>im. map (features model im) [0..<feature_width model]) inputs\<rparr>"
  from assms obtain h1 where h1: "linear_forward (fc_0 model) ?x = Inr h1"
    and out: "linear_forward (fc_2 model) (relu h1) = Inr out"
    and st': "st' = (if fc1_forward_hooks st = [] then st
                     else st\<lparr>view_fc1_output_embeds := Some h1\<rparr>)"
    by (auto simp: forward_def Let_def split: sum.splits)
  from linear_forward_Inr [OF h1]
  have a: "ncols h1 = out_features (fc_0 model)" "length (data h1) = length inputs"
    "wf_ndarray h1" by simp_all
  from linear_forward_Inr [OF out]
  have b: "ncols out = out_features (fc_2 model)" "length (data out) = length inputs"
    "wf_ndarray out" by (simp_all add: relu_shape a)
  from a b st' show ?thesis by simp
qed

lemma forward_Inl:
  assumes "forward model inputs st = (Inl e, st')"
  shows "fc1_forward_hooks st' = fc1_forward_hooks st" "next_handle st' = next_handle st"
  using assms
  by (auto simp: forward_def Let_def split: sum.splits if_splits)

lemma np_concatenate_Inr:
  assumes "np_concatenate a b = Inr c"
  shows "ncols c = ncols a" "data c = data a @ data b" "ncols b = ncols a"
  using assms by (auto simp: np_concatenate_def split: if_splits)

lemma softmax_shape: "ncols (softmax a) = ncols a" "length (data (softmax a)) = length (data a)"
  by (simp_all add: softmax_def)

lemma wf_concatenate:
  "np_concatenate a b = Inr c \<Longrightarrow> wf_ndarray a \<Longrightarrow> wf_ndarray b \<Longrightarrow> wf_ndarray c"
  by (auto simp: np_concatenate_def wf_ndarray_def split: if_splits)

lemma bound_locals_correct_preds [simp]:
  "bound_locals model (loc\<lparr>correct_preds := c\<rparr>) seen = bound_locals model loc seen"
  by (simp add: bound_locals_def)

lemma accumulate_Inr:
  assumes acc: "accumulate i st1 sm labels loc = Inr loc1"
    and view: "view_fc1_output_embeds st1 = Some h"
    and h: "ncols h = out_features (fc_0 model)" "length (data h) = length labels" "wf_ndarray h"
    and sm: "ncols sm = out_features (fc_2 model)" "length (data sm) = length labels"
            "wf_ndarray sm"
    and pos: "0 < i \<Longrightarrow> bound_locals model loc seen"
    and zero: "i = 0 \<Longrightarrow> images_processed loc = 0 \<and> seen = []"
  shows "bound_locals model
           (loc1\<lparr>images_processed := images_processed loc1 + length labels\<rparr>) (seen @ labels)"
proof (cases "i = 0")
  case True
  with acc view have "loc1 = loc\<lparr>fc1_embeds := Some h, output_scores := Some sm,
                                 target := Some labels\<rparr>"
    by (simp add: accumulate_def)
  with True zero h sm show ?thesis by (simp add: bound_locals_def)
next
  case False
  with pos have b: "bound_locals model loc seen" by simp
  then obtain e s t where loc: "fc1_embeds loc = Some e" "output_scores loc = Some s"
      "target loc = Some t"
    by (auto simp: bound_locals_def)
  with b have inv: "ncols e = out_features (fc_0 model)" "ncols s = out_features (fc_2 model)"
      "wf_ndarray e" "wf_ndarray s" "length (data e) = length seen"
      "length (data s) = length seen" "t = seen" "images_processed loc = length seen"
    by (simp_all add: bound_locals_def)
  from acc False loc view obtain e' s' where e': "np_concatenate e h = Inr e'"
      and s': "np_concatenate s sm = Inr s'"
      and loc1: "loc1 = loc\<lparr>fc1_embeds := Some e', output_scores := Some s',
                               target := Some (t @ labels)\<rparr>"
    by (auto simp: accumulate_def split: sum.splits)
  from wf_concatenate [OF e'] wf_concatenate [OF s'] inv h sm
  have wf: "wf_ndarray e'" "wf_ndarray s'" by simp_all
  from np_concatenate_Inr [OF e'] np_concatenate_Inr [OF s'] loc1 inv h sm wf
  show ?thesis by (simp add: bound_locals_def)
qed

lemma accumulate_succeeds:
  assumes view: "view_fc1_output_embeds st1 = Some h"
    and h: "ncols h = out_features (fc_0 model)"
    and sm: "ncols sm = out_features (fc_2 model)"
    and pos: "0 < i \<Longrightarrow> bound_locals model loc seen"
  shows "\<exists>loc1. accumulate i st1 sm labels loc = Inr loc1"
proof (cases "i = 0")
  case True
  with view show ?thesis by (simp add: accumulate_def)
next
  case False
  with pos have b: "bound_locals model loc seen" by simp
  then obtain e s t where loc: "fc1_embeds loc = Some e" "output_scores loc = Some s"
      "target loc = Some t"
    by (auto simp: bound_locals_def)
  with b have "ncols e = ncols h" "ncols s = ncols sm"
    by (simp_all add: bound_locals_def h sm)
  with False loc view show ?thesis by (simp add: accumulate_def np_concatenate_def)
qed

lemma batch_loop_Inr:
  assumes "batch_loop model n i bs loc st = (Inr loc', st')"
    and "fc1_forward_hooks st \<noteq> []"
    and "0 < i \<Longrightarrow> bound_locals model loc seen"
    and "i = 0 \<Longrightarrow> images_processed loc = 0 \<and> seen = []"
  shows "fc1_forward_hooks st' = fc1_forward_hooks st \<and> next_handle st' = next_handle st
       \<and> (bs = [] \<longrightarrow> loc' = loc)
       \<and> (bs \<noteq> [] \<or> 0 < i \<longrightarrow>
           (\<exists>m \<le> length (concat bs).
              bound_locals model loc' (seen @ take m (map snd (concat bs)))
              \<and> (n \<le> int (length seen + m) \<or> m = length (concat bs))))"
  using assms
proof (induction bs arbitrary: i loc st seen)
  case Nil
  then show ?case by auto
next
  case (Cons b bs)
  from Cons.prems(1) obtain outputs st1 preds loc1 where
      fw: "forward model (map fst b) st = (Inr outputs, st1)"
    and tm: "torch_max outputs = Inr preds"
    and acc: "accumulate i st1 (softmax outputs) (map snd b)
               (loc\<lparr>correct_preds := correct_preds loc
                     + length (filter (\<lambda>(p, l). int p = l) (zip preds (map snd b)))\<rparr>) = Inr loc1"
    and rest: "(let loc2 = loc1\<lparr>images_processed := images_processed loc1 + length (data outputs)\<rparr>
           in if n \<le> int (images_processed loc2) then (Inr loc2, st1)
              else batch_loop model n (Suc i) bs loc2 st1) = (Inr loc', st')"
    by (auto split: prod.splits sum.splits)
  from forward_Inr [OF fw] Cons.prems(2)
  obtain h where out: "ncols outputs = out_features (fc_2 model)"
      "length (data outputs) = length b" "wf_ndarray outputs"
    and st1: "fc1_forward_hooks st1 = fc1_forward_hooks st" "next_handle st1 = next_handle st"
    and view: "view_fc1_output_embeds st1 = Some h"
    and h: "ncols h = out_features (fc_0 model)" "length (data h) = length b" "wf_ndarray h"
    by auto
  let ?loc2 = "loc1\<lparr>images_processed := images_processed loc1 + length (data outputs)\<rparr>"
  have b2: "bound_locals model ?loc2 (seen @ map snd b)"
    using accumulate_Inr [OF acc view, of model seen] h out Cons.prems(3,4)
    by (simp add: softmax_shape wf_softmax)
  then have ip: "images_processed ?loc2 = length seen + length b"
    by (simp add: bound_locals_def)
  show ?case
  proof (cases "n \<le> int (images_processed ?loc2)")
    case True
    with rest have "loc' = ?loc2" "st' = st1" by (simp_all add: Let_def)
    with b2 ip True st1 show ?thesis
      by (intro conjI impI exI [of _ "length b"]) simp_all
  next
    case False
    with rest have r: "batch_loop model n (Suc i) bs ?loc2 st1 = (Inr loc', st')"
      by (simp add: Let_def)
    from Cons.IH [OF r, of "seen @ map snd b"] b2 st1 Cons.prems(2)
    obtain m where m: "m \<le> length (concat bs)"
        "bound_locals model loc' ((seen @ map snd b) @ take m (map snd (concat bs)))"
        "n \<le> int (length (seen @ map snd b) + m) \<or> m = length (concat bs)"
      and hk: "fc1_forward_hooks st' = fc1_forward_hooks st" "next_handle st' = next_handle st"
      by auto
    from m hk show ?thesis
      by (intro conjI impI exI [of _ "length b + m"]) (auto simp: add.assoc)
  qed
qed

lemma forward_succeeds:
  assumes "feature_width model = in_features (fc_0 model)"
    and "out_features (fc_0 model) = in_features (fc_2 model)"
  shows "\<exists>out st'. forward model inputs st = (Inr out, st')"
  using assms by (simp add: forward_def Let_def linear_forward_def relu_def)

lemma batch_loop_succeeds:
  assumes "feature_width model = in_features (fc_0 model)"
    and "out_features (fc_0 model) = in_features (fc_2 model)"
    and "out_features (fc_2 model) \<noteq> 0"
    and "fc1_forward_hooks st \<noteq> []"
    and "0 < i \<Longrightarrow> bound_locals model loc seen"
    and "i = 0 \<Longrightarrow> images_processed loc = 0 \<and> seen = []"
  shows "\<exists>loc' st'. batch_loop model n i bs loc st = (Inr loc', st')"
  using assms(4-6)
proof (induction bs arbitrary: i loc st seen)
  case Nil
  then show ?case by simp
next
  case (Cons b bs)
  from forward_succeeds [OF assms(1,2)] obtain outputs st1 where
    fw: "forward model (map fst b) st = (Inr outputs, st1)" by blast
  from forward_Inr [OF fw] Cons.prems(1)
  obtain h where out: "ncols outputs = out_features (fc_2 model)"
      "length (data outputs) = length b" "wf_ndarray outputs"
    and st1: "fc1_forward_hooks st1 = fc1_forward_hooks st"
    and view: "view_fc1_output_embeds st1 = Some h"
    and h: "ncols h = out_features (fc_0 model)" "length (data h) = length b" "wf_ndarray h"
    by auto
  from out assms(3) obtain preds where tm: "torch_max outputs = Inr preds"
    by (simp add: torch_max_def)
  let ?loc0 = "loc\<lparr>correct_preds := correct_preds loc
                     + length (filter (\<lambda>(p, l). int p = l) (zip preds (map snd b)))\<rparr>"
  have "\<exists>loc1. accumulate i st1 (softmax outputs) (map snd b) ?loc0 = Inr loc1"
    using accumulate_succeeds [OF view h(1), of "softmax outputs" i ?loc0 seen] out Cons.prems(2)
    by (simp add: softmax_shape)
  then obtain loc1 where
    acc: "accumulate i st1 (softmax outputs) (map snd b) ?loc0 = Inr loc1" by blast
  let ?loc2 = "loc1\<lparr>images_processed := images_processed loc1 + length (data outputs)\<rparr>"
  have b2: "bound_locals model ?loc2 (seen @ map snd b)"
    using accumulate_Inr [OF acc view, of model seen] h out Cons.prems(2,3)
    by (simp add: softmax_shape wf_softmax)
  from Cons.IH [of st1 "Suc i" ?loc2 "seen @ map snd b"] b2 st1 Cons.prems(1)
  obtain loc' st' where "batch_loop model n (Suc i) bs ?loc2 st1 = (Inr loc', st')"
    by auto
  with fw tm acc show ?case by (simp add: Let_def)
qed

lemma batch_loop_hooks:
  "batch_loop model n i bs loc st = (r, st') \<Longrightarrow>
   fc1_forward_hooks st' = fc1_forward_hooks st \<and> next_handle st' = next_handle st"
proof (induction bs arbitrary: i loc st)
  case Nil
  then show ?case by simp
next
  case (Cons b bs)
  show ?case
  proof (cases "forward model (map fst b) st")
    case (Pair res st1)
    show ?thesis
    proof (cases res)
      case (Inl e)
      with Pair Cons.prems forward_Inl [of model "map fst b" st e st1] show ?thesis by simp
    next
      case (Inr outputs)
      with Pair forward_Inr [of model "map fst b" st outputs st1]
      have st1: "fc1_forward_hooks st1 = fc1_forward_hooks st" "next_handle st1 = next_handle st"
        by simp_all
      from Cons.prems Pair Inr Cons.IH st1 show ?thesis
        by (auto simp: Let_def split: sum.splits if_splits)
    qed
  qed
qed

lemma idx_to_classes_length: "idx_to_classes ls = Inr cs \<Longrightarrow> length cs = length ls"
  by (induction ls arbitrary: cs) (auto split: sum.splits)

lemma tuple_get_class: "0 \<le> l \<Longrightarrow> l < 10 \<Longrightarrow> \<exists>c. tuple_get CIFAR_CLASSES l = Inr c"
  by (simp add: tuple_get_def CIFAR_CLASSES_def Let_def)

lemma idx_to_classes_succeeds:
  "list_all (\<lambda>l. 0 \<le> l \<and> l < 10) ls \<Longrightarrow> \<exists>cs. idx_to_classes ls = Inr cs"
proof (induction ls)
  case Nil
  then show ?case by simp
next
  case (Cons l ls)
  then obtain c cs where "tuple_get CIFAR_CLASSES l = Inr c" "idx_to_classes ls = Inr cs"
    using tuple_get_class [of l] by auto
  then show ?case by simp
qed

lemma length_embedding_cols: "length embedding_cols = 128"
  unfolding embedding_cols_def by (simp only: length_map length_upt diff_zero)

lemma length_CIFAR_CLASSES: "length CIFAR_CLASSES = 10"
  by (simp add: CIFAR_CLASSES_def)

lemma length_py_slice_to:
  "length (py_slice_to n xs) =
     (if 0 \<le> n then min (length xs) (nat n) else length xs - nat (- n))"
  by (simp add: py_slice_to_def)

lemma set_py_slice_to: "set (py_slice_to n xs) \<subseteq> set xs"
  by (auto simp: py_slice_to_def dest: in_set_takeD)

lemma concat_columns3:
  assumes "length (rows a) = m" "length (rows b) = m" "length (rows c) = m"
  shows "columns (concat_columns [a, b, c]) = columns a @ columns b @ columns c"
    and "rows (concat_columns [a, b, c]) = map (\<lambda>i. rows a ! i @ rows b ! i @ rows c ! i) [0..<m]"
  using assms by (simp_all add: concat_columns_def frame_row_def)

lemma build_frame_columns:
  "build_frame n loc = Inr df \<Longrightarrow> columns df = embedding_cols @ CIFAR_CLASSES @ [''target'']"
  by (auto simp: build_frame_def DataFrame_ndarray_def DataFrame_list_def concat_columns_def
           split: option.splits sum.splits if_splits)

lemma build_frame_Inr:
  assumes bf: "build_frame n loc = Inr df" and bl: "bound_locals model loc labels"
  shows "out_features (fc_0 model) = 128 \<and> out_features (fc_2 model) = 10
       \<and> length (rows df) = length (py_slice_to n labels)
       \<and> list_all (\<lambda>r. length r = 139 \<and> list_all is_Num (take 128 r)) (rows df)"
proof -
  from bl obtain e s where loc: "fc1_embeds loc = Some e" "output_scores loc = Some s"
      "target loc = Some labels"
    by (auto simp: bound_locals_def)
  with bl have inv: "ncols e = out_features (fc_0 model)" "ncols s = out_features (fc_2 model)"
      "wf_ndarray e" "wf_ndarray s" "length (data e) = length labels"
      "length (data s) = length labels"
    by (simp_all add: bound_locals_def)
  from bf loc obtain cs where cs: "idx_to_classes (py_slice_to n labels) = Inr cs"
    and we: "ncols e = 128" and ws: "ncols s = 10"
    and df: "df = concat_columns
               [\<lparr>columns = embedding_cols, rows = map (map Num) (py_slice_to n (data e))\<rparr>,
                \<lparr>columns = CIFAR_CLASSES, rows = map (map Num) (py_slice_to n (data s))\<rparr>,
                DataFrame_list cs ''target'']"
    by (auto simp: build_frame_def DataFrame_ndarray_def length_embedding_cols
             length_CIFAR_CLASSES split: sum.splits if_splits)
  let ?m = "length (py_slice_to n labels)"
  have len: "length (py_slice_to n (data e)) = ?m" "length (py_slice_to n (data s)) = ?m"
      "length cs = ?m"
    using inv idx_to_classes_length [OF cs] by (simp_all add: length_py_slice_to)
  have rows: "rows df = map (\<lambda>i. map Num (py_slice_to n (data e) ! i)
                              @ map Num (py_slice_to n (data s) ! i) @ [Str (cs ! i)]) [0..<?m]"
    unfolding df using len
    by (subst concat_columns3 (2) [where m = ?m]) (simp_all add: DataFrame_list_def)
  have ewidth: "length (py_slice_to n (data e) ! i) = 128" if "i < ?m" for i
  proof -
    from that len have "py_slice_to n (data e) ! i \<in> set (data e)"
      using set_py_slice_to [of n "data e"] nth_mem [of i "py_slice_to n (data e)"] by auto
    with inv(3) we show ?thesis by (simp add: wf_ndarray_def list_all_iff)
  qed
  have swidth: "length (py_slice_to n (data s) ! i) = 10" if "i < ?m" for i
  proof -
    from that len have "py_slice_to n (data s) ! i \<in> set (data s)"
      using set_py_slice_to [of n "data s"] nth_mem [of i "py_slice_to n (data s)"] by auto
    with inv(4) ws show ?thesis by (simp add: wf_ndarray_def list_all_iff)
  qed
  have "list_all (\<lambda>r. length r = 139 \<and> list_all is_Num (take 128 r)) (rows df)"
    unfolding rows by (auto simp: list_all_iff ewidth swidth is_Num_def)
  with we ws inv rows show ?thesis by simp
qed

lemma build_frame_succeeds:
  assumes bl: "bound_locals model loc labels"
    and "out_features (fc_0 model) = 128" "out_features (fc_2 model) = 10"
    and "list_all (\<lambda>l. 0 \<le> l \<and> l < 10) labels"
  shows "\<exists>df. build_frame n loc = Inr df"
proof -
  from bl obtain e s where loc: "fc1_embeds loc = Some e" "output_scores loc = Some s"
      "target loc = Some labels"
    by (auto simp: bound_locals_def)
  with bl assms(2,3) have w: "ncols e = 128" "ncols s = 10"
    by (simp_all add: bound_locals_def)
  from assms(4) have "list_all (\<lambda>l. 0 \<le> l \<and> l < 10) (py_slice_to n labels)"
    using set_py_slice_to [of n labels] by (auto simp: list_all_iff)
  then obtain cs where "idx_to_classes (py_slice_to n labels) = Inr cs"
    using idx_to_classes_succeeds by blast
  with loc w show ?thesis
    by (simp add: build_frame_def DataFrame_ndarray_def length_embedding_cols
          length_CIFAR_CLASSES)
qed

lemma nat_of_string_str_nat: "nat_of_string (str_nat n) = n"
proof (induction n rule: str_nat.induct)
  case (1 n)
  show ?case
  proof (cases "n < 10")
    case True
    then show ?thesis
      by (subst str_nat.simps) (simp add: nat_of_string_def digit_def)
  next
    case False
    with 1 have ih: "nat_of_string (str_nat (n div 10)) = n div 10" by simp
    have "n mod 10 < 10" by simp
    then have d: "of_char (digit (n mod 10)) - 48 = n mod 10"
      by (simp add: digit_def)
    have "nat_of_string (str_nat n) = 10 * nat_of_string (str_nat (n div 10)) + n mod 10"
      using False d by (subst str_nat.simps) (simp add: nat_of_string_def)
    with ih show ?thesis by simp
  qed
qed

lemma str_nat_inj: "str_nat m = str_nat n \<Longrightarrow> m = n"
  by (metis nat_of_string_str_nat)

lemma distinct_numbered: "distinct (map (\<lambda>i. p @ str_nat i) [0..<m])"
  by (auto simp: distinct_map inj_on_def dest: str_nat_inj)

lemma distinct_embedding_cols: "distinct embedding_cols"
  unfolding embedding_cols_def by (rule distinct_numbered)

lemma embedding_cols_nth: "i < 128 \<Longrightarrow> embedding_cols ! i = ''emb_'' @ str_nat i"
  unfolding embedding_cols_def by (simp only: nth_map_upt) simp

lemma emb_prefix_filter:
  "filter (\<lambda>c. take 4 c = ''emb_'') (embedding_cols @ CIFAR_CLASSES @ [''target''])
     = embedding_cols"
proof -
  have "filter (\<lambda>c. take 4 c = ''emb_'') (map (\<lambda>i. ''emb_'' @ str_nat i) [0..<m])
          = map (\<lambda>i. ''emb_'' @ str_nat i) [0..<m]" for m
    by (simp add: filter_map o_def)
  then have "filter (\<lambda>c. take 4 c = ''emb_'') embedding_cols = embedding_cols"
    unfolding embedding_cols_def by blast
  moreover have "filter (\<lambda>c. take 4 c = ''emb_'') (CIFAR_CLASSES @ [''target'']) = []"
    by (simp add: CIFAR_CLASSES_def)
  ultimately show ?thesis by simp
qed

lemma generate_embeddings_Inr:
  assumes "generate_embeddings model dataloader n st = (Inr df, st')"
  shows "dataloader \<noteq> []
       \<and> columns df = embedding_cols @ CIFAR_CLASSES @ [''target'']
       \<and> out_features (fc_0 model) = 128 \<and> out_features (fc_2 model) = 10
       \<and> list_all (\<lambda>r. length r = 139 \<and> list_all is_Num (take 128 r)) (rows df)
       \<and> (\<exists>m \<le> length (concat dataloader).
             length (rows df) = length (py_slice_to n (take m (map snd (concat dataloader))))
             \<and> (n \<le> int m \<or> m = length (concat dataloader)))"
proof -
  let ?st0 = "snd (register_forward_hook st)"
  let ?loc0 = "\<lparr>fc1_embeds = None, output_scores = None, target = None,
               correct_preds = 0, images_processed = 0\<rparr>"
  from assms obtain loc where bl: "batch_loop model n 0 dataloader ?loc0 ?st0 = (Inr loc, st')"
    and bf: "build_frame n loc = Inr df"
    by (auto simp: generate_embeddings_def split: prod.splits sum.splits)
  have hooks: "fc1_forward_hooks ?st0 \<noteq> []" by (simp add: register_forward_hook_def)
  have ne: "dataloader \<noteq> []"
  proof
    assume "dataloader = []"
    with bl have "loc = ?loc0" by simp
    with bf show False by (simp add: build_frame_def)
  qed
  from batch_loop_Inr [OF bl hooks, of "[]"] ne
  obtain m where m: "m \<le> length (concat dataloader)"
      "bound_locals model loc (take m (map snd (concat dataloader)))"
      "n \<le> int m \<or> m = length (concat dataloader)"
    by auto
  from build_frame_Inr [OF bf m(2)] build_frame_columns [OF bf] ne m(1,3)
  show ?thesis by auto
qed

lemma generate_embeddings_succeeds:
  assumes "feature_width model = in_features (fc_0 model)"
    and "out_features (fc_0 model) = in_features (fc_2 model)"
    and "out_features (fc_0 model) = 128" and "out_features (fc_2 model) = 10"
    and "dataloader \<noteq> []"
    and "list_all (\<lambda>(x, l). 0 \<le> l \<and> l < 10) (concat dataloader)"
  shows "\<exists>df st'. generate_embeddings model dataloader n st = (Inr df, st')"
proof -
  let ?st0 = "snd (register_forward_hook st)"
  let ?loc0 = "\<lparr>fc1_embeds = None, output_scores = None, target = None,
               correct_preds = 0, images_processed = 0\<rparr>"
  have hooks: "fc1_forward_hooks ?st0 \<noteq> []" by (simp add: register_forward_hook_def)
  from batch_loop_succeeds [OF assms(1,2) _ hooks, of 0 ?loc0 "[]" n dataloader] assms(4)
  obtain loc st' where bl: "batch_loop model n 0 dataloader ?loc0 ?st0 = (Inr loc, st')"
    by auto
  from batch_loop_Inr [OF bl hooks, of "[]"] assms(5)
  obtain m where m: "bound_locals model loc (take m (map snd (concat dataloader)))"
    by auto
  from assms(6) have "list_all (\<lambda>l. 0 \<le> l \<and> l < 10) (take m (map snd (concat dataloader)))"
    by (fastforce simp: list_all_iff dest!: in_set_takeD)
  from build_frame_succeeds [OF m assms(3,4) this, of n]
  obtain df where "build_frame n loc = Inr df" by blast
  with bl show ?thesis by (simp add: generate_embeddings_def register_forward_hook_def)
qed

lemma str_nat_127: "str_nat 127 = ''127''" and str_nat_0: "str_nat 0 = ''0''"
  by code_simp+

text \<open>
  Claim C2. Every dataframe that \<open>generate_embeddings\<close> returns has exactly the 128
  embedding columns \<open>emb_0\<close> ... \<open>emb_127\<close> (they are its first 128 columns, pairwise
  distinct, and no other column carries the prefix), 128 is the output width of the
  \<open>fc[0]\<close> layer of the model that produced it, which \<open>load_model\<close> builds as
  \<open>Linear(512, 128)\<close>, and every row holds 128 numbers in these columns.
\<close>

theorem embedding_columns_fixed:
  assumes "generate_embeddings model dataloader n st = (Inr df, st')"
  shows "filter (\<lambda>c. take 4 c = ''emb_'') (columns df) = embedding_cols
       \<and> take 128 (columns df) = embedding_cols
       \<and> length embedding_cols = 128 \<and> distinct embedding_cols
       \<and> embedding_cols ! 0 = ''emb_0'' \<and> embedding_cols ! 127 = ''emb_127''
       \<and> out_features (fc_0 model) = 128
       \<and> out_features (fc_0 (load_model conv w1 b1 w2 b2)) = 128
       \<and> in_features (fc_0 (load_model conv w1 b1 w2 b2)) = 512
       \<and> list_all (\<lambda>r. length r = length (columns df) \<and> list_all is_Num (take 128 r)) (rows df)"
proof -
  note g = generate_embeddings_Inr [OF assms]
  from g have cols: "columns df = embedding_cols @ CIFAR_CLASSES @ [''target'']" by blast
  have len: "length (columns df) = 139"
    unfolding cols by (simp add: length_embedding_cols length_CIFAR_CLASSES)
  from g have "list_all (\<lambda>r. length r = 139 \<and> list_all is_Num (take 128 r)) (rows df)"
    by blast
  with len have rows: "list_all (\<lambda>r. length r = length (columns df)
      \<and> list_all is_Num (take 128 r)) (rows df)" by simp
  have a: "filter (\<lambda>c. take 4 c = ''emb_'') (columns df) = embedding_cols"
    unfolding cols by (rule emb_prefix_filter)
  have b: "take 128 (columns df) = embedding_cols"
    unfolding cols using length_embedding_cols by simp
  have c: "embedding_cols ! 0 = ''emb_0''" "embedding_cols ! 127 = ''emb_127''"
    by (simp_all add: embedding_cols_nth str_nat_0 str_nat_127)
  from g have d: "out_features (fc_0 model) = 128" by blast
  have e: "out_features (fc_0 (load_model conv w1 b1 w2 b2)) = 128"
    "in_features (fc_0 (load_model conv w1 b1 w2 b2)) = 512"
    by (simp_all add: load_model_def)
  from a b c d e rows length_embedding_cols distinct_embedding_cols show ?thesis by blast
qed

theorem embedding_columns_fixed_witness:
  "\<exists>df st'. generate_embeddings zero_model [[(0, 3), (1, 5)], [(2, 0)]] 2 fresh_interp = (Inr df, st')
     \<and> filter (\<lambda>c. take 4 c = ''emb_'') (columns df) = embedding_cols
     \<and> take 128 (columns df) = embedding_cols
     \<and> out_features (fc_0 zero_model) = 128
     \<and> list_all (\<lambda>r. length r = length (columns df) \<and> list_all is_Num (take 128 r)) (rows df)"
proof -
  have "list_all (\<lambda>(x, l). 0 \<le> l \<and> l < (10::int)) (concat [[(0::nat, 3), (1, 5)], [(2, 0)]])"
    by simp
  then obtain df st' where
    g: "generate_embeddings zero_model [[(0, 3), (1, 5)], [(2, 0)]] 2 fresh_interp = (Inr df, st')"
    using generate_embeddings_succeeds
      [of zero_model "[[(0, 3), (1, 5)], [(2, 0)]]" 2 fresh_interp]
    by (auto simp: zero_model_def load_model_def)
  from embedding_columns_fixed [OF g] g show ?thesis by blast
qed

lemma generate_embeddings_InrD:
  assumes "generate_embeddings model dataloader n st = (Inr df, st')"
  shows "\<exists>loc. batch_loop model n 0 dataloader
                 \<lparr>fc1_embeds = None, output_scores = None, target = None,
                  correct_preds = 0, images_processed = 0\<rparr>
                 (snd (register_forward_hook st)) = (Inr loc, st')
             \<and> build_frame n loc = Inr df"
  using assms by (auto simp: generate_embeddings_def split: prod.splits sum.splits)

lemma batch_loop_first_batch:
  assumes run: "batch_loop model n 0 (b # bs) loc st = (Inr loc', st')"
    and hooks: "fc1_forward_hooks st \<noteq> []"
    and zero: "images_processed loc = 0"
    and cap: "n \<le> int (length b)"
  shows "bound_locals model loc' (map snd b)"
proof -
  from run obtain outputs st1 preds loc1 where
      fw: "forward model (map fst b) st = (Inr outputs, st1)"
    and tm: "torch_max outputs = Inr preds"
    and acc: "accumulate 0 st1 (softmax outputs) (map snd b)
               (loc\<lparr>correct_preds := correct_preds loc
                     + length (filter (\<lambda>(p, l). int p = l) (zip preds (map snd b)))\<rparr>) = Inr loc1"
    and rest: "(let loc2 = loc1\<lparr>images_processed := images_processed loc1 + length (data outputs)\<rparr>
           in if n \<le> int (images_processed loc2) then (Inr loc2, st1)
              else batch_loop model n (Suc 0) bs loc2 st1) = (Inr loc', st')"
    by (auto split: prod.splits sum.splits)
  from forward_Inr [OF fw] hooks
  obtain h where out: "ncols outputs = out_features (fc_2 model)"
      "length (data outputs) = length b" "wf_ndarray outputs"
    and view: "view_fc1_output_embeds st1 = Some h"
    and h: "ncols h = out_features (fc_0 model)" "length (data h) = length b" "wf_ndarray h"
    by auto
  let ?loc2 = "loc1\<lparr>images_processed := images_processed loc1 + length (data outputs)\<rparr>"
  have b2: "bound_locals model ?loc2 ([] @ map snd b)"
    using accumulate_Inr [OF acc view, of model "[]"] h out zero
    by (simp add: softmax_shape wf_softmax)
  then have "images_processed ?loc2 = length b" by (simp add: bound_locals_def)
  with rest cap have "loc' = ?loc2" by (simp add: Let_def)
  with b2 show ?thesis by simp
qed

lemma negative_cap_rows:
  "map_sum id (length \<circ> rows)
     (fst (generate_embeddings zero_model [[(0, 3), (1, 5)]] (- 1) fresh_interp)) = Inr 1"
proof -
  have "list_all (\<lambda>(x, l). 0 \<le> l \<and> l < (10::int)) (concat [[(0::nat, 3), (1, 5)]])"
    by simp
  then obtain df st' where
    g: "generate_embeddings zero_model [[(0, 3), (1, 5)]] (- 1) fresh_interp = (Inr df, st')"
    using generate_embeddings_succeeds [of zero_model "[[(0, 3), (1, 5)]]" "- 1" fresh_interp]
    by (auto simp: zero_model_def load_model_def)
  from generate_embeddings_InrD [OF g] obtain loc where
    bl: "batch_loop zero_model (- 1) 0 [[(0, 3), (1, 5)]]
           \<lparr>fc1_embeds = None, output_scores = None, target = None,
            correct_preds = 0, images_processed = 0\<rparr>
           (snd (register_forward_hook fresh_interp)) = (Inr loc, st')"
    and bf: "build_frame (- 1) loc = Inr df"
    by blast
  have hooks: "fc1_forward_hooks (snd (register_forward_hook fresh_interp)) \<noteq> []"
    by (simp add: register_forward_hook_def)
  from batch_loop_first_batch [OF bl hooks]
  have "bound_locals zero_model loc (map snd [(0::nat, 3::int), (1, 5)])" by simp
  from build_frame_Inr [OF bf this] have "length (rows df) = 1"
    by (simp add: py_slice_to_def)
  with g show ?thesis by simp
qed

text \<open>
  Claim C3, amended. With the loaded model, a dataloader that yields at least one batch,
  labels that are CIFAR-10 class indices and a cap \<open>n \<ge> 0\<close>, \<open>generate_embeddings\<close>
  returns a dataframe with exactly \<open>min k n\<close> rows, \<open>k\<close> being the number of inputs, and
  with the columns \<open>emb_0\<close> ... \<open>emb_127\<close>, the ten class scores in the order of
  \<open>CIFAR_CLASSES\<close>, then \<open>target\<close>.
\<close>

theorem generate_embeddings_rows:
  assumes "dataloader \<noteq> []" and "0 \<le> n"
    and "list_all (\<lambda>(x, l). 0 \<le> l \<and> l < 10) (concat dataloader)"
  shows "\<exists>df st'. generate_embeddings (load_model conv w1 b1 w2 b2) dataloader n st = (Inr df, st')
           \<and> length (rows df) = min (length (concat dataloader)) (nat n)
           \<and> columns df = embedding_cols @ CIFAR_CLASSES @ [''target'']"
proof -
  let ?model = "load_model conv w1 b1 w2 b2"
  from generate_embeddings_succeeds [of ?model dataloader n st] assms(1,3)
  obtain df st' where g: "generate_embeddings ?model dataloader n st = (Inr df, st')"
    by (auto simp: load_model_def)
  from generate_embeddings_Inr [OF g]
  obtain m where cols: "columns df = embedding_cols @ CIFAR_CLASSES @ [''target'']"
    and m: "m \<le> length (concat dataloader)"
      "length (rows df) = length (py_slice_to n (take m (map snd (concat dataloader))))"
      "n \<le> int m \<or> m = length (concat dataloader)"
    by blast
  from m assms(2) have "length (rows df) = min (length (concat dataloader)) (nat n)"
    by (auto simp: length_py_slice_to min_def)
  with g cols show ?thesis by blast
qed

theorem generate_embeddings_rows_witness:
  "[[(0::nat, 3::int), (1, 5)], [(2, 0)]] \<noteq> [] \<and> (0::int) \<le> 2
   \<and> list_all (\<lambda>(x, l). 0 \<le> l \<and> l < (10::int)) (concat [[(0::nat, 3), (1, 5)], [(2, 0)]])
   \<and> (\<exists>df st'. generate_embeddings zero_model [[(0, 3), (1, 5)], [(2, 0)]] 2 fresh_interp
                  = (Inr df, st')
         \<and> length (rows df) = min (length (concat [[(0::nat, 3::int), (1, 5)], [(2, 0)]])) (nat 2)
         \<and> columns df = embedding_cols @ CIFAR_CLASSES @ [''target''])"
proof -
  have h: "[[(0::nat, 3::int), (1, 5)], [(2, 0)]] \<noteq> []" "(0::int) \<le> 2"
    "list_all (\<lambda>(x, l). 0 \<le> l \<and> l < (10::int)) (concat [[(0::nat, 3), (1, 5)], [(2, 0)]])"
    by simp_all
  have "\<exists>df st'. generate_embeddings zero_model [[(0, 3), (1, 5)], [(2, 0)]] 2 fresh_interp
                  = (Inr df, st')
         \<and> length (rows df) = min (length (concat [[(0::nat, 3::int), (1, 5)], [(2, 0)]])) (nat 2)
         \<and> columns df = embedding_cols @ CIFAR_CLASSES @ [''target'']"
    unfolding zero_model_def by (rule generate_embeddings_rows [OF h])
  with h show ?thesis by blast
qed

theorem generate_embeddings_rows_counterexample:
  "fst (generate_embeddings zero_model [] 5 fresh_interp) = Inl UnboundLocalError
   \<and> map_sum id (length \<circ> rows)
         (fst (generate_embeddings zero_model [[(0, 3), (1, 5)]] (- 1) fresh_interp)) = Inr 1"
proof
  show "fst (generate_embeddings zero_model [] 5 fresh_interp) = Inl UnboundLocalError"
    by (simp add: generate_embeddings_def register_forward_hook_def build_frame_def)
  show "map_sum id (length \<circ> rows)
         (fst (generate_embeddings zero_model [[(0, 3), (1, 5)]] (- 1) fresh_interp)) = Inr 1"
    by (rule negative_cap_rows)
qed

text \<open>
  Claim C4. On a dataloader that yields no batch, \<open>generate_embeddings\<close> raises
  (\<open>UnboundLocalError\<close>, at \<open>fc1_embeds[:n]\<close>) whatever the model, the cap and the state; it
  returns no dataframe, and the hook it registered stays registered, the statement
  that raises being outside the \<open>try\<close>.
\<close>

theorem generate_embeddings_empty:
  "fst (generate_embeddings model [] n st) = Inl UnboundLocalError
   \<and> fst (generate_embeddings model [] n st) \<noteq> Inr df
   \<and> fc1_forward_hooks (snd (generate_embeddings model [] n st))
       = fc1_forward_hooks st @ [next_handle st]"
  by (simp add: generate_embeddings_def register_forward_hook_def build_frame_def)

section \<open>Properties of the NLP feature list\<close>

text \<open>
  Claim C9. On a baseline with the columns \<open>target\<close> and \<open>predicted_score\<close>, the feature
  list is the column index with \<open>target\<close> removed and nothing else: \<open>'predicted_score'\<close>
  was bound to \<open>errors\<close>, so the list still has the output column, differs from the one
  that dropping both labels gives, and goes into the model info as it is.
\<close>

theorem features_keep_predicted_score:
  assumes "''target'' \<in> set (columns baseline)"
    and "''predicted_score'' \<in> set (columns baseline)"
  shows "nlp_features baseline = Inr (filter (\<lambda>l. l \<noteq> ''target'') (columns baseline))
       \<and> ''predicted_score'' \<in> set (filter (\<lambda>l. l \<noteq> ''target'') (columns baseline))
       \<and> ''target'' \<notin> set (filter (\<lambda>l. l \<noteq> ''target'') (columns baseline))
       \<and> nlp_features baseline
           \<noteq> Index_drop (columns baseline) [''target'', ''predicted_score''] ''raise''
       \<and> nlp_model_info baseline =
           Inr \<lparr>mi_features = filter (\<lambda>l. l \<noteq> ''target'') (columns baseline),
                mi_target = ''target'', mi_outputs = [''predicted_score'']\<rparr>"
proof -
  from assms(1) have f: "nlp_features baseline
      = Inr (filter (\<lambda>l. l \<noteq> ''target'') (columns baseline))"
    by (simp add: nlp_features_def Index_drop_def)
  from assms(2) have p: "''predicted_score''
      \<in> set (filter (\<lambda>l. l \<noteq> ''target'') (columns baseline))"
    by simp
  from assms have "Index_drop (columns baseline) [''target'', ''predicted_score''] ''raise''
      = Inr (filter (\<lambda>l. l \<noteq> ''target'' \<and> l \<noteq> ''predicted_score'') (columns baseline))"
    by (simp add: Index_drop_def)
  moreover have "filter (\<lambda>l. l \<noteq> ''target'') (columns baseline)
      \<noteq> filter (\<lambda>l. l \<noteq> ''target'' \<and> l \<noteq> ''predicted_score'') (columns baseline)"
  proof
    assume "filter (\<lambda>l. l \<noteq> ''target'') (columns baseline)
      = filter (\<lambda>l. l \<noteq> ''target'' \<and> l \<noteq> ''predicted_score'') (columns baseline)"
    with p have "''predicted_score''
      \<in> set (filter (\<lambda>l. l \<noteq> ''target'' \<and> l \<noteq> ''predicted_score'') (columns baseline))"
      by simp
    then show False by simp
  qed
  ultimately have d: "nlp_features baseline
      \<noteq> Index_drop (columns baseline) [''target'', ''predicted_score''] ''raise''"
    using f by simp
  from f have m: "nlp_model_info baseline =
           Inr \<lparr>mi_features = filter (\<lambda>l. l \<noteq> ''target'') (columns baseline),
                mi_target = ''target'', mi_outputs = [''predicted_score'']\<rparr>"
    by (simp add: nlp_model_info_def)
  from f p d m show ?thesis by simp
qed

theorem features_keep_predicted_score_witness:
  "''target'' \<in> set (columns sample_baseline)
   \<and> ''predicted_score'' \<in> set (columns sample_baseline)
   \<and> nlp_features sample_baseline = Inr [''news'', ''predicted_score'']
   \<and> nlp_model_info sample_baseline =
       Inr \<lparr>mi_features = [''news'', ''predicted_score''],
            mi_target = ''target'', mi_outputs = [''predicted_score'']\<rparr>"
proof -
  have h: "''target'' \<in> set (columns sample_baseline)"
    "''predicted_score'' \<in> set (columns sample_baseline)"
    by (simp_all add: sample_baseline_def)
  from features_keep_predicted_score [OF h] h show ?thesis
    by (simp add: sample_baseline_def)
qed

section \<open>Properties of the onboarding cells\<close>

lemma project_cell_listed:
  "pid \<in> set (list_projects (client k)) \<Longrightarrow>
   project_cell pid k = (None, k\<lparr>PROJECT_ID := Some pid\<rparr>)"
  by (simp add: project_cell_def Let_def)

lemma project_cell_lists:
  "pid \<in> set (list_projects (client (snd (project_cell pid k))))
   \<and> PROJECT_ID (snd (project_cell pid k)) = Some pid"
  by (simp add: project_cell_def call_def create_project_def list_projects_def Let_def)

lemma project_cell_fst: "fst (project_cell pid k) = None"
  by (simp add: project_cell_def call_def create_project_def list_projects_def Let_def)

lemma project_cell_twice: "project_cell pid (snd (project_cell pid k)) = project_cell pid k"
proof (cases "pid \<in> set (list_projects (client k))")
  case True
  then show ?thesis by (simp add: project_cell_def Let_def)
next
  case False
  then show ?thesis
    by (simp add: project_cell_def call_def create_project_def list_projects_def Let_def)
qed

lemma dataset_cell_listed:
  "PROJECT_ID k = Some pid \<Longrightarrow> baseline_df k = Some df \<Longrightarrow>
   did \<in> set (list_datasets (client k) pid) \<Longrightarrow>
   dataset_cell did k = (None, k\<lparr>DATASET_ID := Some did, dataset_info := Some df\<rparr>)"
  by (simp add: dataset_cell_def Let_def)

lemma dataset_cell_twice: "dataset_cell did (snd (dataset_cell did k)) = dataset_cell did k"
proof (cases "baseline_df k")
  case None
  then show ?thesis by (simp add: dataset_cell_def Let_def)
next
  case (Some df)
  note df = this
  show ?thesis
  proof (cases "PROJECT_ID k")
    case None
    with df show ?thesis by (simp add: dataset_cell_def Let_def)
  next
    case (Some pid)
    show ?thesis
    proof (cases "did \<in> set (list_datasets (client k) pid)")
      case True
      with df Some show ?thesis by (simp add: dataset_cell_def Let_def)
    next
      case False
      then have "(pid, did) \<notin> set (datasets (client k))"
        by (force simp: list_datasets_def)
      with False df Some show ?thesis
        by (simp add: dataset_cell_def call_def upload_dataset_def list_datasets_def Let_def)
    qed
  qed
qed

lemma nlp_model_cell_listed:
  "PROJECT_ID k = Some pid \<Longrightarrow> ''newsgroup_model_v1'' \<in> set (list_models (client k) pid) \<Longrightarrow>
   nlp_model_cell k = (None, k\<lparr>MODEL_ID := Some ''newsgroup_model_v1''\<rparr>)"
  by (simp add: nlp_model_cell_def Let_def)

lemma nlp_model_cell_twice: "nlp_model_cell (snd (nlp_model_cell k)) = nlp_model_cell k"
proof (cases "PROJECT_ID k")
  case None
  then show ?thesis by (simp add: nlp_model_cell_def Let_def)
next
  case (Some pid)
  note pid = this
  show ?thesis
  proof (cases "''newsgroup_model_v1'' \<in> set (list_models (client k) pid)")
    case True
    with pid show ?thesis by (simp add: nlp_model_cell_def Let_def)
  next
    case False
    note nl = this
    show ?thesis
    proof (cases "DATASET_ID k")
      case None
      with pid nl show ?thesis by (simp add: nlp_model_cell_def Let_def)
    next
      case (Some did)
      note did = this
      show ?thesis
      proof (cases "the_model_info k")
        case None
        with pid nl did show ?thesis by (simp add: nlp_model_cell_def Let_def)
      next
        case (Some mi)
        from nl have "(pid, ''newsgroup_model_v1'') \<notin> set (models (client k))"
          by (force simp: list_models_def)
        with Some pid nl did show ?thesis
          by (simp add: nlp_model_cell_def call_def add_model_def list_models_def Let_def)
      qed
    qed
  qed
qed

text \<open>
  Claim C10, amended. The five guarded cells (project creation and dataset upload in the
  NLP and the image notebook, model registration in the NLP notebook) give the same
  result and the same state when run a second time, and a run that finds the ID listed
  makes no call: it only rebinds the cell's own variables and leaves the client as it is.
\<close>

theorem guarded_cells_rerun:
  "nlp_project_cell (snd (nlp_project_cell k)) = nlp_project_cell k
   \<and> image_project_cell (snd (image_project_cell k)) = image_project_cell k
   \<and> nlp_dataset_cell (snd (nlp_dataset_cell k)) = nlp_dataset_cell k
   \<and> image_dataset_cell (snd (image_dataset_cell k)) = image_dataset_cell k
   \<and> nlp_model_cell (snd (nlp_model_cell k)) = nlp_model_cell k
   \<and> (''simple_nlp_example'' \<in> set (list_projects (client k)) \<longrightarrow>
        nlp_project_cell k = (None, k\<lparr>PROJECT_ID := Some ''simple_nlp_example''\<rparr>))
   \<and> (''image_monitoring'' \<in> set (list_projects (client k)) \<longrightarrow>
        image_project_cell k = (None, k\<lparr>PROJECT_ID := Some ''image_monitoring''\<rparr>))
   \<and> (PROJECT_ID k = Some pid \<and> baseline_df k = Some df
        \<and> ''newsgroups_1'' \<in> set (list_datasets (client k) pid) \<longrightarrow>
        nlp_dataset_cell k
          = (None, k\<lparr>DATASET_ID := Some ''newsgroups_1'', dataset_info := Some df\<rparr>))
   \<and> (PROJECT_ID k = Some pid \<and> baseline_df k = Some df
        \<and> ''cifar10_baseline'' \<in> set (list_datasets (client k) pid) \<longrightarrow>
        image_dataset_cell k
          = (None, k\<lparr>DATASET_ID := Some ''cifar10_baseline'', dataset_info := Some df\<rparr>))
   \<and> (PROJECT_ID k = Some pid
        \<and> ''newsgroup_model_v1'' \<in> set (list_models (client k) pid) \<longrightarrow>
        nlp_model_cell k = (None, k\<lparr>MODEL_ID := Some ''newsgroup_model_v1''\<rparr>))"
  unfolding nlp_project_cell_def image_project_cell_def nlp_dataset_cell_def
    image_dataset_cell_def
  using project_cell_twice [of "''simple_nlp_example''" k]
    project_cell_twice [of "''image_monitoring''" k]
    dataset_cell_twice [of "''newsgroups_1''" k]
    dataset_cell_twice [of "''cifar10_baseline''" k]
    nlp_model_cell_twice [of k]
    project_cell_listed [of "''simple_nlp_example''" k]
    project_cell_listed [of "''image_monitoring''" k]
    dataset_cell_listed [of k pid df "''newsgroups_1''"]
    dataset_cell_listed [of k pid df "''cifar10_baseline''"]
    nlp_model_cell_listed [of k pid]
  by blast

theorem guarded_cells_rerun_witness:
  "''simple_nlp_example'' \<in> set (list_projects (client nlp_kernel))
   \<and> ''image_monitoring'' \<in> set (list_projects (client nlp_kernel))
   \<and> PROJECT_ID nlp_kernel = Some ''simple_nlp_example''
   \<and> baseline_df nlp_kernel = Some sample_baseline
   \<and> ''newsgroups_1'' \<in> set (list_datasets (client nlp_kernel) ''simple_nlp_example'')
   \<and> ''newsgroup_model_v1'' \<in> set (list_models (client nlp_kernel) ''simple_nlp_example'')
   \<and> nlp_project_cell nlp_kernel = (None, nlp_kernel)
   \<and> nlp_dataset_cell nlp_kernel = (None, nlp_kernel)
   \<and> nlp_model_cell nlp_kernel = (None, nlp_kernel)
   \<and> nlp_model_cell (snd (nlp_model_cell nlp_kernel)) = nlp_model_cell nlp_kernel"
proof -
  have h: "''simple_nlp_example'' \<in> set (list_projects (client nlp_kernel))"
    "''image_monitoring'' \<in> set (list_projects (client nlp_kernel))"
    "PROJECT_ID nlp_kernel = Some ''simple_nlp_example''"
    "baseline_df nlp_kernel = Some sample_baseline"
    "''newsgroups_1'' \<in> set (list_datasets (client nlp_kernel) ''simple_nlp_example'')"
    "''newsgroup_model_v1'' \<in> set (list_models (client nlp_kernel) ''simple_nlp_example'')"
    by (simp_all add: nlp_kernel_def image_kernel_def served_def list_projects_def
          list_datasets_def list_models_def)
  have same: "nlp_kernel\<lparr>PROJECT_ID := Some ''simple_nlp_example''\<rparr> = nlp_kernel"
    "nlp_kernel\<lparr>DATASET_ID := Some ''newsgroups_1'', dataset_info := Some sample_baseline\<rparr>
       = nlp_kernel"
    "nlp_kernel\<lparr>MODEL_ID := Some ''newsgroup_model_v1''\<rparr> = nlp_kernel"
    by (simp_all add: nlp_kernel_def image_kernel_def)
  note t = guarded_cells_rerun [of nlp_kernel "''simple_nlp_example''" sample_baseline]
  from t h same have a: "nlp_project_cell nlp_kernel = (None, nlp_kernel)" by simp
  from t h same have b: "nlp_dataset_cell nlp_kernel = (None, nlp_kernel)" by simp
  from t h same have c: "nlp_model_cell nlp_kernel = (None, nlp_kernel)" by simp
  from t have d: "nlp_model_cell (snd (nlp_model_cell nlp_kernel)) = nlp_model_cell nlp_kernel"
    by blast
  from h a b c d show ?thesis by blast
qed

theorem guarded_cells_rerun_counterexample:
  "''resnet18'' \<in> set (list_models (client image_kernel) ''image_monitoring'')
   \<and> api_log (client image_kernel) = []
   \<and> api_log (client (snd (image_model_cell image_kernel)))
       = [AddModel ''image_monitoring'' ''cifar10_baseline'' ''resnet18'']"
  by (simp add: image_model_cell_def image_kernel_def served_def list_models_def call_def
        add_model_def Let_def)

section \<open>Properties of the baseline packager\<close>

lemma distinct_nlp_embedding_cols: "distinct (nlp_embedding_cols m)"
  unfolding nlp_embedding_cols_def
  by (auto simp: distinct_map inj_on_def dest: str_nat_inj)

lemma length_nlp_embedding_cols: "length (nlp_embedding_cols m) = m"
  by (simp add: nlp_embedding_cols_def)

lemma squeeze_series: "length xs \<noteq> 1 \<Longrightarrow> squeeze xs = Series xs"
  by (cases xs; cases "tl xs") (auto simp: squeeze_def split: list.splits)

lemma squeeze_scalar: "squeeze [x] = Scalar x"
  by (simp add: squeeze_def)

lemma getitem_length: "getitem df c = Inr xs \<Longrightarrow> length xs = length (rows df) \<and> c \<in> set (columns df)"
  by (auto simp: getitem_def split: if_splits)

lemma distinct_extractor_columns: "distinct (embedding_cols @ CIFAR_CLASSES @ [''target''])"
proof -
  have "take 4 c = ''emb_''" if "c \<in> set embedding_cols" for c
    using that unfolding embedding_cols_def by auto
  moreover have "take 4 c \<noteq> ''emb_''" if "c \<in> set (CIFAR_CLASSES @ [''target''])" for c
    using that by (auto simp: CIFAR_CLASSES_def)
  ultimately have "set embedding_cols \<inter> set (CIFAR_CLASSES @ [''target'']) = {}" by blast
  moreover have "distinct (CIFAR_CLASSES @ [''target''])" by (simp add: CIFAR_CLASSES_def)
  ultimately show ?thesis using distinct_embedding_cols by (simp only: distinct_append)
qed

text \<open>
  On a baseline of exactly one row the series is squeezed to its one text and the
  vectorizer refuses it: the cells after the fit are not reached.
\<close>

lemma nlp_baseline_one_row:
  assumes "getitem baseline ''news'' = Inr [Str text]"
  shows "nlp_baseline tfidf baseline = Inl ValueError"
  using assms by (simp add: nlp_baseline_def squeeze_scalar)

lemma nlp_baseline_frame:
  assumes news: "getitem baseline ''news'' = Inr base_series"
    and rows: "length (rows baseline) \<noteq> 1"
    and fit: "tfidf base_series = Inr sparse"
  shows "\<exists>dropped. drop_columns baseline [''news''] = Inr dropped
           \<and> nlp_baseline tfidf baseline =
               Inr (concat_columns
                      [dropped,
                       \<lparr>columns = nlp_embedding_cols (ncols sparse),
                        rows = map (map Num) (data sparse)\<rparr>])"
proof -
  from getitem_length [OF news] have len: "length base_series = length (rows baseline)"
    and col: "''news'' \<in> set (columns baseline)" by simp_all
  from len rows have sq: "squeeze base_series = Series base_series"
    by (simp add: squeeze_series)
  from col obtain dropped where d: "drop_columns baseline [''news''] = Inr dropped"
    by (simp add: drop_columns_def)
  have v: "DataFrame_ndarray sparse (nlp_embedding_cols (ncols sparse))
      = Inr \<lparr>columns = nlp_embedding_cols (ncols sparse), rows = map (map Num) (data sparse)\<rparr>"
    by (simp add: DataFrame_ndarray_def length_nlp_embedding_cols)
  from news sq fit v d show ?thesis by (simp add: nlp_baseline_def)
qed

text \<open>
  Claim C8, amended. Take a baseline that has a \<open>news\<close> column and not exactly one row, and
  whose documents the vectorizer accepts, returning a matrix of \<open>m\<close> features. The NLP
  cells then produce a frame whose columns are the baseline's columns without \<open>news\<close>,
  followed by the embedding columns \<open>f1\<close> ... \<open>fm\<close>; the labels are pairwise distinct when
  the baseline's own labels are and none of them is one of \<open>f1\<close> ... \<open>fm\<close>. Every frame the
  image extractor returns has the embedding columns first, then the class scores and
  \<open>target\<close>, pairwise distinct.
\<close>

theorem packager_columns:
  "(''news'' \<in> set (columns baseline) \<and> length (rows baseline) \<noteq> 1
      \<and> getitem baseline ''news'' = Inr base_series \<and> tfidf base_series = Inr sparse
    \<longrightarrow> (\<exists>df. nlp_baseline tfidf baseline = Inr df
            \<and> columns df = filter (\<lambda>l. l \<noteq> ''news'') (columns baseline)
                            @ nlp_embedding_cols (ncols sparse)
            \<and> length (rows df) = max (length (rows baseline)) (length (data sparse))
            \<and> (distinct (columns baseline)
                 \<and> list_all (\<lambda>c. c \<notin> set (columns baseline)) (nlp_embedding_cols (ncols sparse))
               \<longrightarrow> distinct (columns df))))
   \<and> (generate_embeddings model dataloader n st = (Inr edf, st') \<longrightarrow>
        columns edf = embedding_cols @ CIFAR_CLASSES @ [''target'']
        \<and> distinct (columns edf))"
proof (intro conjI impI)
  assume a: "''news'' \<in> set (columns baseline) \<and> length (rows baseline) \<noteq> 1
      \<and> getitem baseline ''news'' = Inr base_series \<and> tfidf base_series = Inr sparse"
  then have news: "getitem baseline ''news'' = Inr base_series"
    and rws: "length (rows baseline) \<noteq> 1" and fit: "tfidf base_series = Inr sparse"
    by simp_all
  from nlp_baseline_frame [where tfidf = tfidf and base_series = base_series, OF news rws fit]
  obtain dropped where
    d: "drop_columns baseline [''news''] = Inr dropped"
    and r: "nlp_baseline tfidf baseline =
               Inr (concat_columns
                      [dropped,
                       \<lparr>columns = nlp_embedding_cols (ncols sparse),
                        rows = map (map Num) (data sparse)\<rparr>])"
    by blast
  let ?df = "concat_columns
                      [dropped,
                       \<lparr>columns = nlp_embedding_cols (ncols sparse),
                        rows = map (map Num) (data sparse)\<rparr>]"
  from d have dc: "columns dropped = filter (\<lambda>l. l \<noteq> ''news'') (columns baseline)"
    and dr: "length (rows dropped) = length (rows baseline)"
    by (auto simp: drop_columns_def split: if_splits)
  have cols: "columns ?df = filter (\<lambda>l. l \<noteq> ''news'') (columns baseline)
                            @ nlp_embedding_cols (ncols sparse)"
    by (simp add: concat_columns_def dc)
  have len: "length (rows ?df) = max (length (rows baseline)) (length (data sparse))"
    by (simp add: concat_columns_def dr max.commute)
  have dist: "distinct (columns ?df)"
    if "distinct (columns baseline)
        \<and> list_all (\<lambda>c. c \<notin> set (columns baseline)) (nlp_embedding_cols (ncols sparse))"
  proof -
    from that have "set (filter (\<lambda>l. l \<noteq> ''news'') (columns baseline))
        \<inter> set (nlp_embedding_cols (ncols sparse)) = {}"
      by (auto simp: list_all_iff)
    with that show ?thesis
      unfolding cols by (simp only: distinct_append distinct_filter distinct_nlp_embedding_cols)
  qed
  from r cols len dist show "\<exists>df. nlp_baseline tfidf baseline = Inr df
            \<and> columns df = filter (\<lambda>l. l \<noteq> ''news'') (columns baseline)
                            @ nlp_embedding_cols (ncols sparse)
            \<and> length (rows df) = max (length (rows baseline)) (length (data sparse))
            \<and> (distinct (columns baseline)
                 \<and> list_all (\<lambda>c. c \<notin> set (columns baseline)) (nlp_embedding_cols (ncols sparse))
               \<longrightarrow> distinct (columns df))"
    by blast
next
  assume "generate_embeddings model dataloader n st = (Inr edf, st')"
  from generate_embeddings_Inr [OF this]
  show "columns edf = embedding_cols @ CIFAR_CLASSES @ [''target'']" by blast
  then show "distinct (columns edf)" by (simp only: distinct_extractor_columns)
qed

lemma nlp_embedding_cols_3: "nlp_embedding_cols 3 = [''f1'', ''f2'', ''f3'']"
  by code_simp

lemma news_baseline_series:
  "getitem news_baseline ''news'' = Inr [Str ''apple'', Str ''banana'', Str ''cherry'']"
  "getitem colliding_baseline ''news'' = Inr [Str ''apple'', Str ''banana'', Str ''cherry'']"
  by (simp_all add: getitem_def news_baseline_def colliding_baseline_def)

lemma sample_tfidf_series:
  "sample_tfidf [Str ''apple'', Str ''banana'', Str ''cherry'']
     = Inr \<lparr>ncols = 3, data = [[1, 0, 0], [0, 1, 0], [0, 0, 1]]\<rparr>"
  by (simp add: sample_tfidf_def)

theorem packager_columns_witness:
  "''news'' \<in> set (columns news_baseline) \<and> length (rows news_baseline) \<noteq> 1
   \<and> getitem news_baseline ''news'' = Inr [Str ''apple'', Str ''banana'', Str ''cherry'']
   \<and> sample_tfidf [Str ''apple'', Str ''banana'', Str ''cherry'']
       = Inr \<lparr>ncols = 3, data = [[1, 0, 0], [0, 1, 0], [0, 0, 1]]\<rparr>
   \<and> distinct (columns news_baseline)
   \<and> list_all (\<lambda>c. c \<notin> set (columns news_baseline)) [''f1'', ''f2'', ''f3'']
   \<and> (\<exists>df. nlp_baseline sample_tfidf news_baseline = Inr df
          \<and> columns df = [''target'', ''predicted_score'', ''f1'', ''f2'', ''f3'']
          \<and> length (rows df) = 3
          \<and> distinct (columns df))
   \<and> (\<exists>edf st'. generate_embeddings zero_model [[(0, 3), (1, 5)], [(2, 0)]] 2 fresh_interp
                   = (Inr edf, st')
          \<and> columns edf = embedding_cols @ CIFAR_CLASSES @ [''target'']
          \<and> distinct (columns edf))"
proof -
  let ?M = "\<lparr>ncols = 3, data = [[1, 0, 0], [0, 1, 0], [0, 0, 1 :: real]]\<rparr>"
  have "list_all (\<lambda>(x, l). 0 \<le> l \<and> l < (10::int)) (concat [[(0::nat, 3), (1, 5)], [(2, 0)]])"
    by simp
  then obtain edf st' where
    g: "generate_embeddings zero_model [[(0, 3), (1, 5)], [(2, 0)]] 2 fresh_interp = (Inr edf, st')"
    using generate_embeddings_succeeds
      [of zero_model "[[(0, 3), (1, 5)], [(2, 0)]]" 2 fresh_interp]
    by (auto simp: zero_model_def load_model_def)
  note t = packager_columns [where tfidf = sample_tfidf and baseline = news_baseline
      and base_series = "[Str ''apple'', Str ''banana'', Str ''cherry'']" and sparse = ?M
      and model = zero_model and dataloader = "[[(0, 3), (1, 5)], [(2, 0)]]" and n = 2
      and st = fresh_interp and edf = edf and st' = st']
  have h: "''news'' \<in> set (columns news_baseline)" "length (rows news_baseline) \<noteq> 1"
    "distinct (columns news_baseline)"
    "list_all (\<lambda>c. c \<notin> set (columns news_baseline)) [''f1'', ''f2'', ''f3'']"
    by (simp_all add: news_baseline_def)
  note s1 = news_baseline_series(1) and s2 = sample_tfidf_series
  from t h(1,2) s1 s2 obtain df where
    df: "nlp_baseline sample_tfidf news_baseline = Inr df"
    and c: "columns df = filter (\<lambda>l. l \<noteq> ''news'') (columns news_baseline)
                          @ nlp_embedding_cols (ncols ?M)"
    and l: "length (rows df) = max (length (rows news_baseline)) (length (data ?M))"
    and d: "distinct (columns news_baseline)
             \<and> list_all (\<lambda>c. c \<notin> set (columns news_baseline)) (nlp_embedding_cols (ncols ?M))
           \<longrightarrow> distinct (columns df)"
    by blast
  from c have c': "columns df = [''target'', ''predicted_score'', ''f1'', ''f2'', ''f3'']"
    by (simp add: news_baseline_def nlp_embedding_cols_3)
  from l have l': "length (rows df) = 3" by (simp add: news_baseline_def)
  from d h(3,4) have d': "distinct (columns df)" by (simp add: nlp_embedding_cols_3)
  from t g have e: "columns edf = embedding_cols @ CIFAR_CLASSES @ [''target'']
      \<and> distinct (columns edf)" by blast
  from h s1 s2 df c' l' d' g e show ?thesis by blast
qed

theorem packager_columns_counterexample:
  "nlp_baseline sample_tfidf colliding_baseline =
     Inr \<lparr>columns = [''f1'', ''f1'', ''f2'', ''f3''],
          rows = [[IntV 1, Num 1, Num 0, Num 0],
                  [IntV 2, Num 0, Num 1, Num 0],
                  [IntV 3, Num 0, Num 0, Num 1]]\<rparr>"
proof -
  have d: "drop_columns colliding_baseline [''news'']
      = Inr \<lparr>columns = [''f1''], rows = [[IntV 1], [IntV 2], [IntV 3]]\<rparr>"
    by (simp add: drop_columns_def colliding_baseline_def)
  have r: "length (rows colliding_baseline) \<noteq> 1" by (simp add: colliding_baseline_def)
  from nlp_baseline_frame [where tfidf = sample_tfidf, OF news_baseline_series(2) r
      sample_tfidf_series] d
  have "nlp_baseline sample_tfidf colliding_baseline =
      Inr (concat_columns
             [\<lparr>columns = [''f1''], rows = [[IntV 1], [IntV 2], [IntV 3]]\<rparr>,
              \<lparr>columns = nlp_embedding_cols 3,
               rows = map (map Num) [[1, 0, 0], [0, 1, 0], [0, 0, 1]]\<rparr>])"
    by simp
  then show ?thesis
    by (simp add: concat_columns_def frame_row_def nlp_embedding_cols_3)
qed

section \<open>Properties of the event publisher\<close>

lemma stamp_other:
  "length cols = length r \<Longrightarrow>
   map snd (filter (\<lambda>(l, x). l \<noteq> c)
              (zip cols (map (\<lambda>(l, x). if l = c then v else x) (zip cols r))))
     = map snd (filter (\<lambda>(l, x). l \<noteq> c) (zip cols r))"
  by (induction cols r rule: list_induct2) auto

lemma stamp_cell:
  "length cols = length r \<Longrightarrow> c \<in> set cols \<Longrightarrow>
   map_of (zip cols (map (\<lambda>(l, x). if l = c then v else x) (zip cols r))) c = Some v"
  by (induction cols r rule: list_induct2) auto

lemma append_cell:
  "length cols = length r \<Longrightarrow> c \<notin> set cols \<Longrightarrow>
   map_of (zip (cols @ [c]) (r @ [v])) c = Some v"
  by (induction cols r rule: list_induct2) auto

lemma other_columns_setitem:
  assumes "list_all (\<lambda>r. length r = length (columns df)) (rows df)"
  shows "other_columns c (setitem_scalar df c v) = other_columns c df"
proof (cases "c \<in> set (columns df)")
  case True
  with assms show ?thesis
    by (auto simp: other_columns_def setitem_scalar_def list_all_iff stamp_other)
next
  case False
  with assms show ?thesis
    by (auto simp: other_columns_def setitem_scalar_def list_all_iff)
qed

lemma cell_of_setitem:
  assumes "list_all (\<lambda>r. length r = length (columns df)) (rows df)"
  shows "list_all (\<lambda>r. cell_of (setitem_scalar df c v) r c = Some v)
           (rows (setitem_scalar df c v))"
proof (cases "c \<in> set (columns df)")
  case True
  with assms show ?thesis
    by (auto simp: cell_of_def setitem_scalar_def list_all_iff stamp_cell)
next
  case False
  have *: "map_of (zip (columns df @ [c]) (r @ [v])) c = Some v" if "r \<in> set (rows df)" for r
    using that assms False by (intro append_cell) (auto simp: list_all_iff)
  have cols: "columns (setitem_scalar df c v) = columns df @ [c]"
    and rws: "rows (setitem_scalar df c v) = map (\<lambda>r. r @ [v]) (rows df)"
    using False by (simp_all add: setitem_scalar_def)
  show ?thesis
    unfolding list_all_iff cell_of_def cols rws
  proof
    fix r' assume "r' \<in> set (map (\<lambda>r. r @ [v]) (rows df))"
    then obtain r where "r \<in> set (rows df)" "r' = r @ [v]" by auto
    with * show "map_of (zip (columns df @ [c]) r') c = Some v" by (simp only:)
  qed
qed

lemma setitem_shape:
  "length (rows (setitem_scalar df c v)) = length (rows df)"
  "c \<notin> set (columns df) \<Longrightarrow> columns (setitem_scalar df c v) = columns df @ [c]"
  "c \<in> set (columns df) \<Longrightarrow> columns (setitem_scalar df c v) = columns df"
  by (simp_all add: setitem_scalar_def)

lemma permutation_take:
  assumes "mset perm = mset [0..<N]" and "n \<le> N"
  shows "length (take n perm) = n" "distinct (take n perm)"
    "list_all (\<lambda>p. p < N) (take n perm)"
proof -
  from assms(1) have len: "length perm = N" using mset_eq_length by fastforce
  with assms(2) show "length (take n perm) = n" by simp
  from assms(1) have "distinct perm" using mset_eq_imp_distinct_iff distinct_upt by blast
  then show "distinct (take n perm)" by (rule distinct_take)
  from assms(1) have "set perm = set [0..<N]" by (rule mset_eq_setD)
  then show "list_all (\<lambda>p. p < N) (take n perm)"
    by (auto simp: list_all_iff dest!: in_set_takeD)
qed

lemma publish_day_unfold:
  assumes "1000 \<le> length (rows (heap k ! prod_df))"
    and "PROJECT_ID k = Some pid" and "MODEL_ID k = Some mid"
  shows "publish_day e i day prod_df k =
     (let src = heap k ! prod_df;
          batch = setitem_scalar
                    (src\<lparr>rows := map (\<lambda>p. rows src ! p)
                                    (take 1000 (rng e i day (length (rows src))))\<rparr>)
                    ''timestamp'' (IntV (timestamp (clock e i day) i day))
      in (if accepts (client k) batch then None else Some ClientError,
          k\<lparr>heap := heap k @ [batch],
            client := (client k)\<lparr>api_log := api_log (client k)
                         @ [PublishEventsBatch pid mid batch ''timestamp'']\<rparr>\<rparr>))"
  using assms
  by (simp add: publish_day_def DataFrame_sample_def DataFrame_setitem_def call_def
        publish_events_batch_def Let_def)

lemma publish_day_short:
  assumes "length (rows (heap k ! prod_df)) < 1000"
  shows "publish_day e i day prod_df k = (Some ValueError, k)"
  using assms by (simp add: publish_day_def DataFrame_sample_def Let_def)

lemma publish_day_heap:
  "\<exists>xs. heap (snd (publish_day e i day prod_df k)) = heap k @ xs"
proof (cases "length (rows (heap k ! prod_df)) < 1000")
  case True
  then show ?thesis by (simp add: publish_day_short)
next
  case False
  then show ?thesis
    by (auto simp: publish_day_def DataFrame_sample_def DataFrame_setitem_def call_def
          publish_events_batch_def Let_def split: option.splits)
qed

lemma sampled_other_columns:
  assumes wf: "list_all (\<lambda>r. length r = length (columns src)) (rows src)"
    and ps: "list_all (\<lambda>p. p < length (rows src)) ps"
  shows "other_columns c
           (setitem_scalar (src\<lparr>rows := map (\<lambda>p. rows src ! p) ps\<rparr>) c v)
         = \<lparr>columns = columns (other_columns c src),
            rows = map (\<lambda>p. rows (other_columns c src) ! p) ps\<rparr>"
    and "list_all (\<lambda>r. cell_of (setitem_scalar (src\<lparr>rows := map (\<lambda>p. rows src ! p) ps\<rparr>) c v)
                        r c = Some v)
           (rows (setitem_scalar (src\<lparr>rows := map (\<lambda>p. rows src ! p) ps\<rparr>) c v))"
proof -
  let ?s = "src\<lparr>rows := map (\<lambda>p. rows src ! p) ps\<rparr>"
  from wf ps have wfs: "list_all (\<lambda>r. length r = length (columns ?s)) (rows ?s)"
    by (auto simp: list_all_iff)
  from ps have "rows (other_columns c ?s) = map (\<lambda>p. rows (other_columns c src) ! p) ps"
    by (auto simp: other_columns_def list_all_iff)
  moreover have "columns (other_columns c ?s) = columns (other_columns c src)"
    by (simp add: other_columns_def)
  ultimately have "other_columns c ?s = \<lparr>columns = columns (other_columns c src),
            rows = map (\<lambda>p. rows (other_columns c src) ! p) ps\<rparr>"
    by (cases "other_columns c ?s") simp
  with other_columns_setitem [OF wfs, of c v]
  show "other_columns c (setitem_scalar ?s c v)
         = \<lparr>columns = columns (other_columns c src),
            rows = map (\<lambda>p. rows (other_columns c src) ! p) ps\<rparr>"
    by simp
  from cell_of_setitem [OF wfs, of c v]
  show "list_all (\<lambda>r. cell_of (setitem_scalar ?s c v) r c = Some v)
           (rows (setitem_scalar ?s c v))" .
qed

lemma publish_kernel_frame:
  "heap publish_kernel ! 0 = big_frame" "length (heap publish_kernel) = 1"
  "PROJECT_ID publish_kernel = Some ''image_monitoring''"
  "MODEL_ID publish_kernel = Some ''resnet18''"
  by (simp_all add: publish_kernel_def image_kernel_def)

lemma big_frame_shape:
  "length (rows big_frame) = 1000"
  "list_all (\<lambda>r. length r = length (columns big_frame)) (rows big_frame)"
  "''timestamp'' \<notin> set (columns big_frame)"
  by (simp_all add: big_frame_def list_all_iff)

lemma sample_env_rng: "rng sample_env i day N = [0..<N]"
  by (simp add: sample_env_def)

text \<open>
  Claim C1. When the source frame has at least 1000 rows (and the generator's draw is a
  permutation of its row positions), an iteration of the publishing loop makes one call of
  \<open>publish_events_batch\<close>, whose batch has exactly 1000 rows: the source rows at 1000
  distinct positions, each with the one timestamp of the iteration in its \<open>timestamp\<close>
  column.
\<close>

theorem published_batch:
  assumes "1000 \<le> length (rows (heap k ! prod_df))"
    and "list_all (\<lambda>r. length r = length (columns (heap k ! prod_df))) (rows (heap k ! prod_df))"
    and "mset (rng e i day (length (rows (heap k ! prod_df))))
           = mset [0..<length (rows (heap k ! prod_df))]"
    and "PROJECT_ID k = Some pid" and "MODEL_ID k = Some mid"
  shows "\<exists>batch ps.
           api_log (client (snd (publish_day e i day prod_df k)))
             = api_log (client k) @ [PublishEventsBatch pid mid batch ''timestamp'']
         \<and> length (rows batch) = 1000
         \<and> ps = take 1000 (rng e i day (length (rows (heap k ! prod_df))))
         \<and> length ps = 1000 \<and> distinct ps
         \<and> list_all (\<lambda>p. p < length (rows (heap k ! prod_df))) ps
         \<and> rows (other_columns ''timestamp'' batch)
             = map (\<lambda>p. rows (other_columns ''timestamp'' (heap k ! prod_df)) ! p) ps
         \<and> list_all (\<lambda>r. cell_of batch r ''timestamp''
                             = Some (IntV (timestamp (clock e i day) i day)))
               (rows batch)"
proof -
  let ?src = "heap k ! prod_df"
  let ?ps = "take 1000 (rng e i day (length (rows ?src)))"
  let ?ts = "IntV (timestamp (clock e i day) i day)"
  let ?batch = "setitem_scalar (?src\<lparr>rows := map (\<lambda>p. rows ?src ! p) ?ps\<rparr>) ''timestamp'' ?ts"
  note p = permutation_take [OF assms(3) assms(1)]
  note s = sampled_other_columns [OF assms(2) p(3), of "''timestamp''" ?ts]
  have log: "api_log (client (snd (publish_day e i day prod_df k)))
             = api_log (client k) @ [PublishEventsBatch pid mid ?batch ''timestamp'']"
    by (simp add: publish_day_unfold [OF assms(1,4,5)] Let_def)
  have len: "length (rows ?batch) = 1000"
    using p(1) by (simp add: setitem_shape)
  from s(1) have oc: "rows (other_columns ''timestamp'' ?batch)
             = map (\<lambda>p. rows (other_columns ''timestamp'' ?src) ! p) ?ps"
    by simp
  from log len p oc s(2) show ?thesis by blast
qed

theorem published_batch_witness:
  "1000 \<le> length (rows (heap publish_kernel ! 0))
   \<and> list_all (\<lambda>r. length r = length (columns (heap publish_kernel ! 0)))
         (rows (heap publish_kernel ! 0))
   \<and> mset (rng sample_env 0 0 (length (rows (heap publish_kernel ! 0))))
       = mset [0..<length (rows (heap publish_kernel ! 0))]
   \<and> PROJECT_ID publish_kernel = Some ''image_monitoring''
   \<and> MODEL_ID publish_kernel = Some ''resnet18''
   \<and> (\<exists>batch ps.
           api_log (client (snd (publish_day sample_env 0 0 0 publish_kernel)))
             = api_log (client publish_kernel)
               @ [PublishEventsBatch ''image_monitoring'' ''resnet18'' batch ''timestamp'']
         \<and> length (rows batch) = 1000
         \<and> ps = take 1000 (rng sample_env 0 0 (length (rows (heap publish_kernel ! 0))))
         \<and> length ps = 1000 \<and> distinct ps
         \<and> list_all (\<lambda>p. p < length (rows (heap publish_kernel ! 0))) ps
         \<and> rows (other_columns ''timestamp'' batch)
             = map (\<lambda>p. rows (other_columns ''timestamp'' (heap publish_kernel ! 0)) ! p) ps
         \<and> list_all (\<lambda>r. cell_of batch r ''timestamp''
                             = Some (IntV (timestamp (clock sample_env 0 0) 0 0)))
               (rows batch))"
proof -
  have h1: "1000 \<le> length (rows (heap publish_kernel ! 0))"
    by (simp only: publish_kernel_frame big_frame_shape)
  have h2: "list_all (\<lambda>r. length r = length (columns (heap publish_kernel ! 0)))
         (rows (heap publish_kernel ! 0))"
    by (simp only: publish_kernel_frame big_frame_shape)
  have h3: "mset (rng sample_env 0 0 (length (rows (heap publish_kernel ! 0))))
       = mset [0..<length (rows (heap publish_kernel ! 0))]"
    by (simp only: sample_env_rng)
  note h4 = publish_kernel_frame(3) and h5 = publish_kernel_frame(4)
  from published_batch [OF h1 h2 h3 h4 h5] h1 h2 h3 h4 h5 show ?thesis
    by (intro conjI)
qed

text \<open>
  Claim C7. An iteration of the publishing loop leaves every frame that existed before it,
  the source among them, as it was; the batch is a new frame that agrees with the sampled
  source rows in every column other than \<open>timestamp\<close>, which is appended when the source
  has no such column.
\<close>

theorem stamping_only_mutation:
  assumes "prod_df < length (heap k)"
    and "list_all (\<lambda>r. length r = length (columns (heap k ! prod_df))) (rows (heap k ! prod_df))"
    and "mset (rng e i day (length (rows (heap k ! prod_df))))
           = mset [0..<length (rows (heap k ! prod_df))]"
  shows "heap (snd (publish_day e i day prod_df k)) ! prod_df = heap k ! prod_df
       \<and> take (length (heap k)) (heap (snd (publish_day e i day prod_df k))) = heap k
       \<and> (1000 \<le> length (rows (heap k ! prod_df))
            \<and> PROJECT_ID k = Some pid \<and> MODEL_ID k = Some mid \<longrightarrow>
          (\<exists>batch.
             heap (snd (publish_day e i day prod_df k)) = heap k @ [batch]
           \<and> api_log (client (snd (publish_day e i day prod_df k)))
               = api_log (client k) @ [PublishEventsBatch pid mid batch ''timestamp'']
           \<and> columns (other_columns ''timestamp'' batch)
               = columns (other_columns ''timestamp'' (heap k ! prod_df))
           \<and> rows (other_columns ''timestamp'' batch)
               = map (\<lambda>p. rows (other_columns ''timestamp'' (heap k ! prod_df)) ! p)
                   (take 1000 (rng e i day (length (rows (heap k ! prod_df)))))
           \<and> (''timestamp'' \<notin> set (columns (heap k ! prod_df)) \<longrightarrow>
                columns batch = columns (heap k ! prod_df) @ [''timestamp''])))"
proof (intro conjI impI)
  from publish_day_heap [of e i day prod_df k] obtain xs where
    xs: "heap (snd (publish_day e i day prod_df k)) = heap k @ xs" by blast
  from xs assms(1) show "heap (snd (publish_day e i day prod_df k)) ! prod_df = heap k ! prod_df"
    by (simp add: nth_append)
  from xs show "take (length (heap k)) (heap (snd (publish_day e i day prod_df k))) = heap k"
    by simp
next
  let ?src = "heap k ! prod_df"
  let ?ps = "take 1000 (rng e i day (length (rows ?src)))"
  let ?ts = "IntV (timestamp (clock e i day) i day)"
  let ?batch = "setitem_scalar (?src\<lparr>rows := map (\<lambda>p. rows ?src ! p) ?ps\<rparr>) ''timestamp'' ?ts"
  assume a: "1000 \<le> length (rows ?src) \<and> PROJECT_ID k = Some pid \<and> MODEL_ID k = Some mid"
  then have n: "1000 \<le> length (rows ?src)" and pid: "PROJECT_ID k = Some pid"
    and mid: "MODEL_ID k = Some mid" by simp_all
  note p = permutation_take [OF assms(3) n]
  note s = sampled_other_columns [OF assms(2) p(3), of "''timestamp''" ?ts]
  note u = publish_day_unfold [OF n pid mid, of e i day]
  have h: "heap (snd (publish_day e i day prod_df k)) = heap k @ [?batch]"
    by (simp add: u Let_def)
  have log: "api_log (client (snd (publish_day e i day prod_df k)))
             = api_log (client k) @ [PublishEventsBatch pid mid ?batch ''timestamp'']"
    by (simp add: u Let_def)
  from s(1) have oc: "columns (other_columns ''timestamp'' ?batch)
               = columns (other_columns ''timestamp'' ?src)"
      "rows (other_columns ''timestamp'' ?batch)
             = map (\<lambda>p. rows (other_columns ''timestamp'' ?src) ! p) ?ps"
    by simp_all
  have app: "''timestamp'' \<notin> set (columns ?src) \<longrightarrow>
                columns ?batch = columns ?src @ [''timestamp'']"
    by (simp add: setitem_shape)
  from h log oc app show "\<exists>batch.
             heap (snd (publish_day e i day prod_df k)) = heap k @ [batch]
           \<and> api_log (client (snd (publish_day e i day prod_df k)))
               = api_log (client k) @ [PublishEventsBatch pid mid batch ''timestamp'']
           \<and> columns (other_columns ''timestamp'' batch)
               = columns (other_columns ''timestamp'' (heap k ! prod_df))
           \<and> rows (other_columns ''timestamp'' batch)
               = map (\<lambda>p. rows (other_columns ''timestamp'' (heap k ! prod_df)) ! p)
                   (take 1000 (rng e i day (length (rows (heap k ! prod_df)))))
           \<and> (''timestamp'' \<notin> set (columns (heap k ! prod_df)) \<longrightarrow>
                columns batch = columns (heap k ! prod_df) @ [''timestamp''])"
    by blast
qed

theorem stamping_only_mutation_witness:
  "(0::nat) < length (heap publish_kernel)
   \<and> list_all (\<lambda>r. length r = length (columns (heap publish_kernel ! 0)))
         (rows (heap publish_kernel ! 0))
   \<and> mset (rng sample_env 0 0 (length (rows (heap publish_kernel ! 0))))
       = mset [0..<length (rows (heap publish_kernel ! 0))]
   \<and> 1000 \<le> length (rows (heap publish_kernel ! 0))
   \<and> PROJECT_ID publish_kernel = Some ''image_monitoring''
   \<and> MODEL_ID publish_kernel = Some ''resnet18''
   \<and> ''timestamp'' \<notin> set (columns (heap publish_kernel ! 0))
   \<and> heap (snd (publish_day sample_env 0 0 0 publish_kernel)) ! 0 = heap publish_kernel ! 0
   \<and> take (length (heap publish_kernel)) (heap (snd (publish_day sample_env 0 0 0 publish_kernel)))
       = heap publish_kernel
   \<and> (\<exists>batch.
         heap (snd (publish_day sample_env 0 0 0 publish_kernel)) = heap publish_kernel @ [batch]
       \<and> api_log (client (snd (publish_day sample_env 0 0 0 publish_kernel)))
           = api_log (client publish_kernel)
             @ [PublishEventsBatch ''image_monitoring'' ''resnet18'' batch ''timestamp'']
       \<and> columns (other_columns ''timestamp'' batch)
           = columns (other_columns ''timestamp'' (heap publish_kernel ! 0))
       \<and> rows (other_columns ''timestamp'' batch)
           = map (\<lambda>p. rows (other_columns ''timestamp'' (heap publish_kernel ! 0)) ! p)
               (take 1000 (rng sample_env 0 0 (length (rows (heap publish_kernel ! 0)))))
       \<and> columns batch = columns (heap publish_kernel ! 0) @ [''timestamp''])"
proof -
  have h0: "(0::nat) < length (heap publish_kernel)"
    by (simp add: publish_kernel_frame)
  have h1: "1000 \<le> length (rows (heap publish_kernel ! 0))"
    by (simp only: publish_kernel_frame big_frame_shape)
  have h2: "list_all (\<lambda>r. length r = length (columns (heap publish_kernel ! 0)))
         (rows (heap publish_kernel ! 0))"
    by (simp only: publish_kernel_frame big_frame_shape)
  have h3: "mset (rng sample_env 0 0 (length (rows (heap publish_kernel ! 0))))
       = mset [0..<length (rows (heap publish_kernel ! 0))]"
    by (simp only: sample_env_rng)
  note h4 = publish_kernel_frame(3) and h5 = publish_kernel_frame(4)
  have h6: "''timestamp'' \<notin> set (columns (heap publish_kernel ! 0))"
    by (simp add: publish_kernel_frame big_frame_shape)
  note t = stamping_only_mutation [OF h0 h2 h3, of "''image_monitoring''" "''resnet18''"]
  from t have a: "heap (snd (publish_day sample_env 0 0 0 publish_kernel)) ! 0
      = heap publish_kernel ! 0"
    "take (length (heap publish_kernel)) (heap (snd (publish_day sample_env 0 0 0 publish_kernel)))
       = heap publish_kernel"
    by blast+
  from t h1 h4 h5 h6 have b: "\<exists>batch.
         heap (snd (publish_day sample_env 0 0 0 publish_kernel)) = heap publish_kernel @ [batch]
       \<and> api_log (client (snd (publish_day sample_env 0 0 0 publish_kernel)))
           = api_log (client publish_kernel)
             @ [PublishEventsBatch ''image_monitoring'' ''resnet18'' batch ''timestamp'']
       \<and> columns (other_columns ''timestamp'' batch)
           = columns (other_columns ''timestamp'' (heap publish_kernel ! 0))
       \<and> rows (other_columns ''timestamp'' batch)
           = map (\<lambda>p. rows (other_columns ''timestamp'' (heap publish_kernel ! 0)) ! p)
               (take 1000 (rng sample_env 0 0 (length (rows (heap publish_kernel ! 0)))))
       \<and> columns batch = columns (heap publish_kernel ! 0) @ [''timestamp'']"
    by blast
  from h0 h1 h2 h3 h4 h5 h6 a b show ?thesis by (intro conjI)
qed

section \<open>Propagation of exceptions\<close>





end
